theory Spec2Isabelle
  imports Complex_Main
begin

section \<open>Data model\<close>

text \<open>
  The entities of \<^verbatim>\<open>internal/model\<close>. Go's \<^verbatim>\<open>uint\<close> identifiers are natural
  numbers, Go's \<^verbatim>\<open>int\<close> quantities are integers (they are only compared, never
  added). A \<^verbatim>\<open>float64\<close> is a value of the type parameter \<open>'f\<close>: its zero, its
  addition, its multiplication and its order are uninterpreted operations of the
  syntactic classes, and the conversion \<^verbatim>\<open>float64(n)\<close> of an integer is a parameter
  named \<open>float64\<close> of the functions that convert. No law of arithmetic is assumed
  of them, so what is proved holds of IEEE arithmetic as of any other.
  \<^verbatim>\<open>gorm.DeletedAt\<close> is an optional time; the bookkeeping columns
  \<^verbatim>\<open>CreatedAt\<close> and \<^verbatim>\<open>UpdatedAt\<close> are left out.
\<close>

type_synonym uint = nat
type_synonym time = nat

record Cliente =
  cli_ID :: uint
  cli_Nome :: string
  cli_Email :: string
  cli_CPF :: string
  cli_Telefone :: string
  cli_DeletedAt :: "time option"

record 'f Produto =
  prd_ID :: uint
  prd_Nome :: string
  prd_Descricao :: string
  prd_Preco :: 'f
  prd_Estoque :: int
  prd_SKU :: string
  prd_Categoria :: string
  prd_Ativo :: bool
  prd_DeletedAt :: "time option"

record 'f PedidoProduto =
  it_ID :: uint
  it_PedidoID :: uint
  it_ProdutoID :: uint
  it_Produto :: "'f Produto"
  it_Quantidade :: int
  it_PrecoUnitario :: 'f
  it_Subtotal :: 'f
  it_DeletedAt :: "time option"

record 'f Pedido =
  ped_ID :: uint
  ped_ClienteID :: uint
  ped_Cliente :: Cliente
  ped_Itens :: "'f PedidoProduto list"
  ped_ValorTotal :: 'f
  ped_Status :: string
  ped_DataPedido :: time
  ped_DeletedAt :: "time option"

text \<open>The zero values of the structs: a relation that was not loaded holds one.\<close>

definition zero_Cliente :: Cliente where
  "zero_Cliente = \<lparr>cli_ID = 0, cli_Nome = [], cli_Email = [], cli_CPF = [],
     cli_Telefone = [], cli_DeletedAt = None\<rparr>"

definition zero_Produto :: "('f::zero) Produto" where
  "zero_Produto = \<lparr>prd_ID = 0, prd_Nome = [], prd_Descricao = [], prd_Preco = 0,
     prd_Estoque = 0, prd_SKU = [], prd_Categoria = [], prd_Ativo = False,
     prd_DeletedAt = None\<rparr>"

text \<open>\<^verbatim>\<open>PedidoProduto.BeforeSave\<close>: the hook that recomputes the subtotal.\<close>

definition BeforeSave :: "(int \<Rightarrow> 'f) \<Rightarrow> ('f::times) PedidoProduto \<Rightarrow> 'f PedidoProduto" where
  "BeforeSave float64 pp = pp\<lparr>it_Subtotal := float64 (it_Quantidade pp) * it_PrecoUnitario pp\<rparr>"

section \<open>Requests and responses\<close>

record CreateItemPedidoRequest =
  rq_ProdutoID :: uint
  rq_Quantidade :: int

record CreatePedidoRequest =
  rq_ClienteID :: uint
  rq_Itens :: "CreateItemPedidoRequest list"
  rq_Status :: string

record UpdatePedidoRequest =
  up_Status :: string

record ClienteResponse =
  rc_ID :: uint
  rc_Nome :: string
  rc_Email :: string
  rc_CPF :: string
  rc_Telefone :: string

record 'f ProdutoResponse =
  rp_ID :: uint
  rp_Nome :: string
  rp_Descricao :: string
  rp_Preco :: 'f
  rp_Estoque :: int
  rp_SKU :: string
  rp_Categoria :: string
  rp_Ativo :: bool

record 'f ItemPedidoResponse =
  ri_ID :: uint
  ri_ProdutoID :: uint
  ri_Produto :: "'f ProdutoResponse option"
  ri_Quantidade :: int
  ri_PrecoUnitario :: 'f
  ri_Subtotal :: 'f

record 'f PedidoResponse =
  rs_ID :: uint
  rs_ClienteID :: uint
  rs_Cliente :: "ClienteResponse option"
  rs_Itens :: "'f ItemPedidoResponse list"
  rs_ValorTotal :: 'f
  rs_Status :: string
  rs_DataPedido :: time

section \<open>Errors\<close>

text \<open>
  One constructor for each error the code builds. The errors made with
  \<^verbatim>\<open>errors.New\<close> carry the variable part of their message. A failed struct
  validation lists the fields that failed, in the order of the struct.
  \<open>ProdutoNaoEncontrado\<close> carries the code point of the one character that
  \<^verbatim>\<open>string(rune(id))\<close> puts in the message.
  \<open>PanicNilDereference\<close> is the run-time panic of reading through a nil pointer.
\<close>

datatype field =
    F_ClienteID
  | F_Itens
  | F_Item_ProdutoID nat
  | F_Item_Quantidade nat
  | F_Status
  | F_Nome
  | F_Descricao
  | F_Preco
  | F_Estoque
  | F_SKU
  | F_Categoria

datatype error =
    ValidationErrors "field list"
  | ClienteNaoEncontrado
  | ProdutoNaoEncontrado nat
  | EstoqueInsuficiente string
  | ProdutoInativo string
  | ProdutoNotFound
  | PedidoNotFound
  | SKUJaCadastrado
  | SKUJaCadastradoEmOutroProduto
  | DatabaseError
  | PanicNilDereference

section \<open>The database\<close>

text \<open>
  The four tables that \<^verbatim>\<open>InitDatabase\<close> migrates, each a list of rows in the order
  of insertion. A row is the struct with its relation fields at their zero value.
  \<open>closed\<close> is the failure the repository tests provoke by closing the connection:
  every statement of a closed database fails. SQLite does not enforce foreign keys
  unless the connection asks for it, and \<^verbatim>\<open>sqlite.Open(cfg.FilePath)\<close> does not.
\<close>

record 'f database =
  clientes :: "Cliente list"
  produtos :: "'f Produto list"
  pedidos :: "'f Pedido list"
  pedido_produtos :: "'f PedidoProduto list"
  closed :: bool

datatype 'a query = Found 'a | ErrRecordNotFound | Failure

text \<open>\<^verbatim>\<open>db.First\<close>: the first row that satisfies the condition.\<close>

definition First :: "bool \<Rightarrow> ('a \<Rightarrow> bool) \<Rightarrow> 'a list \<Rightarrow> 'a query" where
  "First is_closed cond rows =
     (if is_closed then Failure
      else case find cond rows of None \<Rightarrow> ErrRecordNotFound | Some r \<Rightarrow> Found r)"

text \<open>The next value of an auto-incremented primary key.\<close>

definition next_id :: "uint list \<Rightarrow> uint" where
  "next_id ids = Suc (foldr max ids 0)"

text \<open>
  A column tagged \<^verbatim>\<open>default:v\<close>: on insertion a field that holds the zero value of
  its type is written, and set in the struct, as the default.
\<close>

definition default_value :: "'a \<Rightarrow> 'a \<Rightarrow> 'a \<Rightarrow> 'a" where
  "default_value zero dflt v = (if v = zero then dflt else v)"

text \<open>\<^verbatim>\<open>db.Save\<close> writes every column of the row with the struct's primary key, and
  inserts the row when there is none.\<close>

definition upsert :: "('a \<Rightarrow> uint) \<Rightarrow> 'a \<Rightarrow> 'a list \<Rightarrow> 'a list" where
  "upsert key row rows =
     (if key row \<in> set (map key rows)
      then map (\<lambda>r. if key r = key row then row else r) rows
      else rows @ [row])"

subsection \<open>clienteRepositorySQLite\<close>

definition cliente_vivo :: "uint \<Rightarrow> Cliente \<Rightarrow> bool" where
  "cliente_vivo id' c = (cli_ID c = id' \<and> cli_DeletedAt c = None)"

definition clienteRepo_FindByID :: "'f database \<Rightarrow> uint \<Rightarrow> error + Cliente option" where
  "clienteRepo_FindByID db id' =
     (case First (closed db) (cliente_vivo id') (clientes db) of
        Failure \<Rightarrow> Inl DatabaseError
      | ErrRecordNotFound \<Rightarrow> Inr None
      | Found cliente \<Rightarrow> Inr (Some cliente))"

subsection \<open>produtoRepositorySQLite\<close>

definition produto_vivo :: "uint \<Rightarrow> 'f Produto \<Rightarrow> bool" where
  "produto_vivo id' p = (prd_ID p = id' \<and> prd_DeletedAt p = None)"

definition produtoRepo_FindByID :: "'f database \<Rightarrow> uint \<Rightarrow> error + 'f Produto" where
  "produtoRepo_FindByID db id' =
     (case First (closed db) (produto_vivo id') (produtos db) of
        Failure \<Rightarrow> Inl DatabaseError
      | ErrRecordNotFound \<Rightarrow> Inl ProdutoNotFound
      | Found produto \<Rightarrow> Inr produto)"

definition produtoRepo_FindBySKU :: "'f database \<Rightarrow> string \<Rightarrow> error + 'f Produto option" where
  "produtoRepo_FindBySKU db sku =
     (case First (closed db) (\<lambda>p. prd_SKU p = sku \<and> prd_DeletedAt p = None) (produtos db) of
        Failure \<Rightarrow> Inl DatabaseError
      | ErrRecordNotFound \<Rightarrow> Inr None
      | Found produto \<Rightarrow> Inr (Some produto))"

text \<open>
  \<^verbatim>\<open>db.Create(produto)\<close>. The services build the struct with a zero ID, so the key
  is the next one. \<^verbatim>\<open>Estoque\<close> is tagged \<^verbatim>\<open>default:0\<close> and \<^verbatim>\<open>Ativo\<close> is tagged
  \<^verbatim>\<open>default:true\<close>; the unique index on \<^verbatim>\<open>sku\<close> covers every row of the table.
\<close>

definition produtoRepo_Create ::
  "'f database \<Rightarrow> 'f Produto \<Rightarrow> 'f database \<times> (error + 'f Produto)" where
  "produtoRepo_Create db produto =
     (if closed db \<or> prd_SKU produto \<in> set (map prd_SKU (produtos db))
      then (db, Inl DatabaseError)
      else
        let p = produto\<lparr>prd_ID := next_id (map prd_ID (produtos db)),
                        prd_Estoque := default_value 0 0 (prd_Estoque produto),
                        prd_Ativo := default_value False True (prd_Ativo produto)\<rparr>
        in (db\<lparr>produtos := produtos db @ [p]\<rparr>, Inr p))"

text \<open>\<^verbatim>\<open>db.Save(produto)\<close>; at least one row is affected whenever it succeeds.\<close>

definition produtoRepo_Update ::
  "'f database \<Rightarrow> 'f Produto \<Rightarrow> 'f database \<times> (error + unit)" where
  "produtoRepo_Update db produto =
     (if closed db
         \<or> list_ex (\<lambda>r. prd_SKU r = prd_SKU produto \<and> prd_ID r \<noteq> prd_ID produto) (produtos db)
      then (db, Inl DatabaseError)
      else (db\<lparr>produtos := upsert prd_ID produto (produtos db)\<rparr>, Inr ()))"

subsection \<open>pedidoRepositorySQLite\<close>

text \<open>
  Saving the lines of an order, as \<^verbatim>\<open>Create\<close> and \<^verbatim>\<open>Save\<close> both do for a has-many
  relation: the hook runs on each line, the line gets the order's key, a line that is
  already stored keeps its columns but for the order's key, and a new line is inserted
  under the next key. The result is the table and the lines as the struct holds them.
\<close>

fun save_Itens ::
  "(int \<Rightarrow> 'f) \<Rightarrow> uint \<Rightarrow> ('f::{zero,times}) PedidoProduto list \<Rightarrow> 'f PedidoProduto list
     \<Rightarrow> 'f PedidoProduto list \<times> 'f PedidoProduto list" where
  "save_Itens float64 pid rows [] = (rows, [])"
| "save_Itens float64 pid rows (item # itens) =
     (let i = (BeforeSave float64 item)\<lparr>it_PedidoID := pid\<rparr> in
      if it_ID i \<noteq> 0 \<and> it_ID i \<in> set (map it_ID rows)
      then
        (case save_Itens float64 pid
                (map (\<lambda>r. if it_ID r = it_ID i then r\<lparr>it_PedidoID := pid\<rparr> else r) rows) itens of
           (rows', itens') \<Rightarrow> (rows', i # itens'))
      else
        (let i' = i\<lparr>it_ID := (if it_ID i = 0 then next_id (map it_ID rows) else it_ID i)\<rparr> in
         case save_Itens float64 pid (rows @ [i'\<lparr>it_Produto := zero_Produto\<rparr>]) itens of
           (rows', itens') \<Rightarrow> (rows', i' # itens')))"

definition pedido_row :: "('f::zero) Pedido \<Rightarrow> 'f Pedido" where
  "pedido_row p = p\<lparr>ped_Cliente := zero_Cliente, ped_Itens := []\<rparr>"

text \<open>
  \<^verbatim>\<open>db.Create(pedido)\<close>: the order's row, then its lines. \<^verbatim>\<open>Status\<close> is tagged
  \<^verbatim>\<open>default:'pendente'\<close>. The services build the struct with a zero ID and with
  no customer or product loaded, so no other table is written.
\<close>

definition pedidoRepo_Create ::
  "(int \<Rightarrow> 'f) \<Rightarrow> 'f database \<Rightarrow> ('f::{zero,times}) Pedido
     \<Rightarrow> 'f database \<times> (error + 'f Pedido)" where
  "pedidoRepo_Create float64 db pedido =
     (if closed db then (db, Inl DatabaseError)
      else
        let p = pedido\<lparr>ped_ID := next_id (map ped_ID (pedidos db)),
                       ped_Status := default_value [] ''pendente'' (ped_Status pedido)\<rparr>
        in case save_Itens float64 (ped_ID p) (pedido_produtos db) (ped_Itens p) of
             (rows, itens) \<Rightarrow>
               (db\<lparr>pedidos := pedidos db @ [pedido_row p], pedido_produtos := rows\<rparr>,
                Inr (p\<lparr>ped_Itens := itens\<rparr>)))"

definition pedido_vivo :: "uint \<Rightarrow> 'f Pedido \<Rightarrow> bool" where
  "pedido_vivo id' p = (ped_ID p = id' \<and> ped_DeletedAt p = None)"

definition item_vivo :: "uint \<Rightarrow> 'f PedidoProduto \<Rightarrow> bool" where
  "item_vivo pid i = (it_PedidoID i = pid \<and> it_DeletedAt i = None)"

text \<open>The three \<^verbatim>\<open>Preload\<close>s: a relation whose row is not found stays zero.\<close>

definition preload_Cliente :: "'f database \<Rightarrow> uint \<Rightarrow> Cliente" where
  "preload_Cliente db id' =
     (case find (cliente_vivo id') (clientes db) of None \<Rightarrow> zero_Cliente | Some c \<Rightarrow> c)"

definition preload_Produto :: "('f::zero) database \<Rightarrow> 'f PedidoProduto \<Rightarrow> 'f PedidoProduto" where
  "preload_Produto db i =
     i\<lparr>it_Produto := (case find (produto_vivo (it_ProdutoID i)) (produtos db) of
                         None \<Rightarrow> zero_Produto | Some p \<Rightarrow> p)\<rparr>"

definition preload_Itens :: "('f::zero) database \<Rightarrow> uint \<Rightarrow> 'f PedidoProduto list" where
  "preload_Itens db pid = map (preload_Produto db) (filter (item_vivo pid) (pedido_produtos db))"

definition pedidoRepo_FindByID :: "('f::zero) database \<Rightarrow> uint \<Rightarrow> error + 'f Pedido" where
  "pedidoRepo_FindByID db id' =
     (case First (closed db) (pedido_vivo id') (pedidos db) of
        Failure \<Rightarrow> Inl DatabaseError
      | ErrRecordNotFound \<Rightarrow> Inl PedidoNotFound
      | Found pedido \<Rightarrow>
          Inr (pedido\<lparr>ped_Cliente := preload_Cliente db (ped_ClienteID pedido),
                      ped_Itens := preload_Itens db id'\<rparr>))"

text \<open>
  \<^verbatim>\<open>db.Save(pedido)\<close>: the order's row and its lines; a customer or product that
  was loaded is already stored and is not written again. At least one row is
  affected whenever it succeeds.
\<close>

definition pedidoRepo_Update ::
  "(int \<Rightarrow> 'f) \<Rightarrow> 'f database \<Rightarrow> ('f::{zero,times}) Pedido
     \<Rightarrow> 'f database \<times> (error + 'f Pedido)" where
  "pedidoRepo_Update float64 db pedido =
     (if closed db then (db, Inl DatabaseError)
      else case save_Itens float64 (ped_ID pedido) (pedido_produtos db) (ped_Itens pedido) of
             (rows, itens) \<Rightarrow>
               (db\<lparr>pedidos := upsert ped_ID (pedido_row pedido) (pedidos db),
                   pedido_produtos := rows\<rparr>,
                Inr (pedido\<lparr>ped_Itens := itens\<rparr>)))"

section \<open>Request validation\<close>

text \<open>
  What \<^verbatim>\<open>validate.Struct\<close> reports for the \<^verbatim>\<open>validate\<close> tags of the request
  structs: \<^verbatim>\<open>required\<close> refuses the zero value, \<^verbatim>\<open>omitempty\<close> accepts it,
  \<^verbatim>\<open>min\<close> and \<^verbatim>\<open>max\<close> bound a length, \<^verbatim>\<open>gt\<close> and \<^verbatim>\<open>gte\<close> bound a number,
  \<^verbatim>\<open>oneof\<close> lists the accepted words and \<^verbatim>\<open>dive\<close> validates each element. The
  tags of a field are tried in order and the first that fails is reported.
\<close>

definition status_oneof :: "string list" where
  "status_oneof = [''pendente'', ''pago'', ''enviado'', ''entregue'', ''cancelado'']"

definition validate_CreateItemPedidoRequest :: "nat \<Rightarrow> CreateItemPedidoRequest \<Rightarrow> field list" where
  "validate_CreateItemPedidoRequest k item =
     (if rq_ProdutoID item = 0 then [F_Item_ProdutoID k] else []) @
     (if rq_Quantidade item \<le> 0 then [F_Item_Quantidade k] else [])"

definition validate_CreatePedidoRequest :: "CreatePedidoRequest \<Rightarrow> field list" where
  "validate_CreatePedidoRequest req =
     (if rq_ClienteID req = 0 then [F_ClienteID] else []) @
     (if rq_Itens req = [] then [F_Itens]
      else concat (map (\<lambda>(k, item). validate_CreateItemPedidoRequest k item)
                       (enumerate 0 (rq_Itens req)))) @
     (if rq_Status req \<noteq> [] \<and> rq_Status req \<notin> set status_oneof then [F_Status] else [])"

definition validate_UpdatePedidoRequest :: "UpdatePedidoRequest \<Rightarrow> field list" where
  "validate_UpdatePedidoRequest req =
     (if up_Status req = [] \<or> up_Status req \<notin> set status_oneof then [F_Status] else [])"

section \<open>pedidoServiceImpl\<close>

text \<open>
  The conversions of \<^verbatim>\<open>string(rune(itemReq.ProdutoID))\<close>: \<^verbatim>\<open>rune\<close> keeps the low
  32 bits of the identifier as a signed number, and the string made of a rune holds
  that code point, or U+FFFD when the number is not a valid code point.
\<close>

definition rune :: "uint \<Rightarrow> int" where
  "rune n = (let m = n mod 2 ^ 32 in if m < 2 ^ 31 then int m else int m - 2 ^ 32)"

definition string_of_rune :: "int \<Rightarrow> nat" where
  "string_of_rune r =
     (if r < 0 \<or> 0x10FFFF < r \<or> (0xD800 \<le> r \<and> r \<le> 0xDFFF) then 0xFFFD else nat r)"

text \<open>The loop of \<^verbatim>\<open>Create\<close> over the requested lines, with its two accumulators.\<close>

fun Create_itens ::
  "(int \<Rightarrow> 'f) \<Rightarrow> ('f::{zero,plus,times}) database \<Rightarrow> CreateItemPedidoRequest list
     \<Rightarrow> 'f PedidoProduto list \<Rightarrow> 'f \<Rightarrow> error + ('f PedidoProduto list \<times> 'f)" where
  "Create_itens float64 db [] itens valorTotal = Inr (itens, valorTotal)"
| "Create_itens float64 db (itemReq # rest) itens valorTotal =
     (case produtoRepo_FindByID db (rq_ProdutoID itemReq) of
        Inl err \<Rightarrow> Inl (ProdutoNaoEncontrado (string_of_rune (rune (rq_ProdutoID itemReq))))
      | Inr produto \<Rightarrow>
          if prd_Estoque produto < rq_Quantidade itemReq
          then Inl (EstoqueInsuficiente (prd_Nome produto))
          else if \<not> prd_Ativo produto
          then Inl (ProdutoInativo (prd_Nome produto))
          else
            let subtotal = float64 (rq_Quantidade itemReq) * prd_Preco produto;
                item = \<lparr>it_ID = 0, it_PedidoID = 0, it_ProdutoID = rq_ProdutoID itemReq,
                        it_Produto = zero_Produto, it_Quantidade = rq_Quantidade itemReq,
                        it_PrecoUnitario = prd_Preco produto, it_Subtotal = subtotal,
                        it_DeletedAt = None\<rparr>
            in Create_itens float64 db rest (itens @ [item]) (valorTotal + subtotal))"

definition produto_toResponse :: "'f Produto \<Rightarrow> 'f ProdutoResponse" where
  "produto_toResponse produto =
     \<lparr>rp_ID = prd_ID produto, rp_Nome = prd_Nome produto,
      rp_Descricao = prd_Descricao produto, rp_Preco = prd_Preco produto,
      rp_Estoque = prd_Estoque produto, rp_SKU = prd_SKU produto,
      rp_Categoria = prd_Categoria produto, rp_Ativo = prd_Ativo produto\<rparr>"

definition item_toResponse :: "'f PedidoProduto \<Rightarrow> 'f ItemPedidoResponse" where
  "item_toResponse item =
     \<lparr>ri_ID = it_ID item, ri_ProdutoID = it_ProdutoID item,
      ri_Produto = (if prd_ID (it_Produto item) \<noteq> 0
                    then Some (produto_toResponse (it_Produto item)) else None),
      ri_Quantidade = it_Quantidade item, ri_PrecoUnitario = it_PrecoUnitario item,
      ri_Subtotal = it_Subtotal item\<rparr>"

definition pedido_toResponse :: "'f Pedido \<Rightarrow> 'f PedidoResponse" where
  "pedido_toResponse pedido =
     \<lparr>rs_ID = ped_ID pedido, rs_ClienteID = ped_ClienteID pedido,
      rs_Cliente =
        (if cli_ID (ped_Cliente pedido) \<noteq> 0
         then Some \<lparr>rc_ID = cli_ID (ped_Cliente pedido), rc_Nome = cli_Nome (ped_Cliente pedido),
                    rc_Email = cli_Email (ped_Cliente pedido), rc_CPF = cli_CPF (ped_Cliente pedido),
                    rc_Telefone = cli_Telefone (ped_Cliente pedido)\<rparr>
         else None),
      rs_Itens = map item_toResponse (ped_Itens pedido),
      rs_ValorTotal = ped_ValorTotal pedido, rs_Status = ped_Status pedido,
      rs_DataPedido = ped_DataPedido pedido\<rparr>"

text \<open>
  \<^verbatim>\<open>pedidoServiceImpl.Create\<close>; \<open>now\<close> is the reading of the clock. The result is
  the database after the call and what the call returns. The customer the
  repository returns is a pointer, nil when no row was found, and is read only at
  the end.
\<close>

definition pedido_Create ::
  "(int \<Rightarrow> 'f) \<Rightarrow> time \<Rightarrow> ('f::{zero,plus,times}) database \<Rightarrow> CreatePedidoRequest
     \<Rightarrow> 'f database \<times> (error + 'f PedidoResponse)" where
  "pedido_Create float64 now db req =
     (case validate_CreatePedidoRequest req of
        e # es \<Rightarrow> (db, Inl (ValidationErrors (e # es)))
      | [] \<Rightarrow>
     (case clienteRepo_FindByID db (rq_ClienteID req) of
        Inl err \<Rightarrow> (db, Inl ClienteNaoEncontrado)
      | Inr cliente \<Rightarrow>
     (case Create_itens float64 db (rq_Itens req) [] 0 of
        Inl err \<Rightarrow> (db, Inl err)
      | Inr (itens, valorTotal) \<Rightarrow>
          let status = (if rq_Status req = [] then ''pendente'' else rq_Status req);
              pedido = \<lparr>ped_ID = 0, ped_ClienteID = rq_ClienteID req,
                        ped_Cliente = zero_Cliente, ped_Itens = itens,
                        ped_ValorTotal = valorTotal, ped_Status = status,
                        ped_DataPedido = now, ped_DeletedAt = None\<rparr>
          in
     (case pedidoRepo_Create float64 db pedido of
        (db', Inl err) \<Rightarrow> (db', Inl err)
      | (db', Inr pedido') \<Rightarrow>
     (case pedidoRepo_FindByID db' (ped_ID pedido') of
        Inl err \<Rightarrow> (db', Inl err)
      | Inr pedidoCompleto \<Rightarrow>
     (case cliente of
        None \<Rightarrow> (db', Inl PanicNilDereference)
      | Some c \<Rightarrow> (db', Inr (pedido_toResponse (pedidoCompleto\<lparr>ped_Cliente := c\<rparr>)))))))))"

text \<open>\<^verbatim>\<open>pedidoServiceImpl.UpdateStatus\<close>.\<close>

definition pedido_UpdateStatus ::
  "(int \<Rightarrow> 'f) \<Rightarrow> ('f::{zero,times}) database \<Rightarrow> uint \<Rightarrow> UpdatePedidoRequest
     \<Rightarrow> 'f database \<times> (error + 'f PedidoResponse)" where
  "pedido_UpdateStatus float64 db id' req =
     (case validate_UpdatePedidoRequest req of
        e # es \<Rightarrow> (db, Inl (ValidationErrors (e # es)))
      | [] \<Rightarrow>
     (case pedidoRepo_FindByID db id' of
        Inl err \<Rightarrow> (db, Inl err)
      | Inr pedido \<Rightarrow>
     (case pedidoRepo_Update float64 db (pedido\<lparr>ped_Status := up_Status req\<rparr>) of
        (db', Inl err) \<Rightarrow> (db', Inl err)
      | (db', Inr pedido') \<Rightarrow> (db', Inr (pedido_toResponse pedido')))))"

section \<open>produtoServiceImpl\<close>

record 'f CreateProdutoRequest =
  cp_Nome :: string
  cp_Descricao :: string
  cp_Preco :: 'f
  cp_Estoque :: int
  cp_SKU :: string
  cp_Categoria :: string
  cp_Ativo :: "bool option"

record 'f UpdateProdutoRequest =
  upd_Nome :: string
  upd_Descricao :: string
  upd_Preco :: 'f
  upd_Estoque :: int
  upd_SKU :: string
  upd_Categoria :: string
  upd_Ativo :: "bool option"

definition validate_CreateProdutoRequest :: "('f::{zero,ord}) CreateProdutoRequest \<Rightarrow> field list" where
  "validate_CreateProdutoRequest req =
     (if length (cp_Nome req) < 3 \<or> 200 < length (cp_Nome req) then [F_Nome] else []) @
     (if 1000 < length (cp_Descricao req) then [F_Descricao] else []) @
     (if cp_Preco req = 0 then [F_Preco] else if 0 < cp_Preco req then [] else [F_Preco]) @
     (if cp_Estoque req < 0 then [F_Estoque] else []) @
     (if length (cp_SKU req) < 3 \<or> 50 < length (cp_SKU req) then [F_SKU] else []) @
     (if 100 < length (cp_Categoria req) then [F_Categoria] else [])"

definition validate_UpdateProdutoRequest :: "('f::{zero,ord}) UpdateProdutoRequest \<Rightarrow> field list" where
  "validate_UpdateProdutoRequest req =
     (if upd_Nome req \<noteq> [] \<and> (length (upd_Nome req) < 3 \<or> 200 < length (upd_Nome req))
      then [F_Nome] else []) @
     (if 1000 < length (upd_Descricao req) then [F_Descricao] else []) @
     (if upd_Preco req = 0 then [] else if 0 < upd_Preco req then [] else [F_Preco]) @
     (if upd_Estoque req < 0 then [F_Estoque] else []) @
     (if upd_SKU req \<noteq> [] \<and> (length (upd_SKU req) < 3 \<or> 50 < length (upd_SKU req))
      then [F_SKU] else []) @
     (if 100 < length (upd_Categoria req) then [F_Categoria] else [])"

text \<open>\<^verbatim>\<open>produtoServiceImpl.Create\<close>.\<close>

definition produto_Create ::
  "('f::{zero,ord}) database \<Rightarrow> 'f CreateProdutoRequest
     \<Rightarrow> 'f database \<times> (error + 'f ProdutoResponse)" where
  "produto_Create db req =
     (case validate_CreateProdutoRequest req of
        e # es \<Rightarrow> (db, Inl (ValidationErrors (e # es)))
      | [] \<Rightarrow>
     (case produtoRepo_FindBySKU db (cp_SKU req) of
        Inl err \<Rightarrow> (db, Inl err)
      | Inr (Some existente) \<Rightarrow> (db, Inl SKUJaCadastrado)
      | Inr None \<Rightarrow>
          let ativo = (case cp_Ativo req of None \<Rightarrow> True | Some b \<Rightarrow> b);
              produto = \<lparr>prd_ID = 0, prd_Nome = cp_Nome req, prd_Descricao = cp_Descricao req,
                         prd_Preco = cp_Preco req, prd_Estoque = cp_Estoque req,
                         prd_SKU = cp_SKU req, prd_Categoria = cp_Categoria req,
                         prd_Ativo = ativo, prd_DeletedAt = None\<rparr>
          in
     (case produtoRepo_Create db produto of
        (db', Inl err) \<Rightarrow> (db', Inl err)
      | (db', Inr produto') \<Rightarrow> (db', Inr (produto_toResponse produto')))))"

text \<open>
  \<^verbatim>\<open>produtoServiceImpl.Update\<close>: the fields the request provides replace those
  of the stored product, in the order of the code; the check of the new SKU comes
  after the first four.
\<close>

definition Update_campos :: "('f::{zero,ord}) UpdateProdutoRequest \<Rightarrow> 'f Produto \<Rightarrow> 'f Produto" where
  "Update_campos req produto =
     (let p1 = (if upd_Nome req \<noteq> [] then produto\<lparr>prd_Nome := upd_Nome req\<rparr> else produto);
          p2 = (if upd_Descricao req \<noteq> [] then p1\<lparr>prd_Descricao := upd_Descricao req\<rparr> else p1);
          p3 = (if 0 < upd_Preco req then p2\<lparr>prd_Preco := upd_Preco req\<rparr> else p2);
          p4 = (if 0 \<le> upd_Estoque req then p3\<lparr>prd_Estoque := upd_Estoque req\<rparr> else p3);
          p5 = (if upd_SKU req \<noteq> [] then p4\<lparr>prd_SKU := upd_SKU req\<rparr> else p4);
          p6 = (if upd_Categoria req \<noteq> [] then p5\<lparr>prd_Categoria := upd_Categoria req\<rparr> else p5)
      in case upd_Ativo req of None \<Rightarrow> p6 | Some b \<Rightarrow> p6\<lparr>prd_Ativo := b\<rparr>)"

definition Update_sku :: "'f database \<Rightarrow> uint \<Rightarrow> string \<Rightarrow> error option" where
  "Update_sku db id' sku =
     (if sku = [] then None
      else case produtoRepo_FindBySKU db sku of
             Inl err \<Rightarrow> Some err
           | Inr None \<Rightarrow> None
           | Inr (Some existente) \<Rightarrow>
               if prd_ID existente \<noteq> id' then Some SKUJaCadastradoEmOutroProduto else None)"

definition produto_Update ::
  "('f::{zero,ord}) database \<Rightarrow> uint \<Rightarrow> 'f UpdateProdutoRequest
     \<Rightarrow> 'f database \<times> (error + 'f ProdutoResponse)" where
  "produto_Update db id' req =
     (case validate_UpdateProdutoRequest req of
        e # es \<Rightarrow> (db, Inl (ValidationErrors (e # es)))
      | [] \<Rightarrow>
     (case produtoRepo_FindByID db id' of
        Inl err \<Rightarrow> (db, Inl err)
      | Inr produto \<Rightarrow>
     (case Update_sku db id' (upd_SKU req) of
        Some err \<Rightarrow> (db, Inl err)
      | None \<Rightarrow>
     (case produtoRepo_Update db (Update_campos req produto) of
        (db', Inl err) \<Rightarrow> (db', Inl err)
      | (db', Inr u) \<Rightarrow> (db', Inr (produto_toResponse (Update_campos req produto)))))))"

section \<open>Notions of the specification\<close>

text \<open>
  The words of the specification about one requested line, read on the database the
  request meets: the product's unit price at that time, whether the line passes
  validation (its product exists, is active and has stock for the quantity), and
  the line the order gets for it.
\<close>

definition preco_atual :: "('f::zero) database \<Rightarrow> uint \<Rightarrow> 'f" where
  "preco_atual db pid =
     (case produtoRepo_FindByID db pid of Inl err \<Rightarrow> 0 | Inr p \<Rightarrow> prd_Preco p)"

definition linha_valida :: "'f database \<Rightarrow> CreateItemPedidoRequest \<Rightarrow> bool" where
  "linha_valida db r =
     (case produtoRepo_FindByID db (rq_ProdutoID r) of
        Inl err \<Rightarrow> False
      | Inr p \<Rightarrow> rq_Quantidade r \<le> prd_Estoque p \<and> prd_Ativo p)"

definition linha_item ::
  "(int \<Rightarrow> 'f) \<Rightarrow> ('f::{zero,times}) database \<Rightarrow> CreateItemPedidoRequest \<Rightarrow> 'f PedidoProduto" where
  "linha_item float64 db r =
     \<lparr>it_ID = 0, it_PedidoID = 0, it_ProdutoID = rq_ProdutoID r, it_Produto = zero_Produto,
      it_Quantidade = rq_Quantidade r, it_PrecoUnitario = preco_atual db (rq_ProdutoID r),
      it_Subtotal = float64 (rq_Quantidade r) * preco_atual db (rq_ProdutoID r),
      it_DeletedAt = None\<rparr>"

text \<open>
  A stored line, compared with the item it was saved from and with the requested line
  it comes from: the order it belongs to, its product, its quantity, its unit price
  and its subtotal.
\<close>

definition item_salvo :: "(int \<Rightarrow> 'f) \<Rightarrow> uint \<Rightarrow> ('f::times) PedidoProduto \<Rightarrow> 'f PedidoProduto \<Rightarrow> bool" where
  "item_salvo float64 pid row item =
     (it_PedidoID row = pid \<and> it_ProdutoID row = it_ProdutoID item \<and>
      it_Quantidade row = it_Quantidade item \<and>
      it_PrecoUnitario row = it_PrecoUnitario item \<and>
      it_Subtotal row = float64 (it_Quantidade item) * it_PrecoUnitario item)"

definition linha_gravada ::
  "(int \<Rightarrow> 'f) \<Rightarrow> ('f::{zero,times}) database \<Rightarrow> uint \<Rightarrow> 'f PedidoProduto \<Rightarrow> CreateItemPedidoRequest \<Rightarrow> bool" where
  "linha_gravada float64 db pid row r =
     (it_PedidoID row = pid \<and> it_ProdutoID row = rq_ProdutoID r \<and>
      it_Quantidade row = rq_Quantidade r \<and>
      it_PrecoUnitario row = preco_atual db (rq_ProdutoID r) \<and>
      it_Subtotal row = float64 (rq_Quantidade r) * preco_atual db (rq_ProdutoID r))"

text \<open>Two stored lines with the same values but, possibly, another order.\<close>

definition mesmos_valores :: "'f PedidoProduto \<Rightarrow> 'f PedidoProduto \<Rightarrow> bool" where
  "mesmos_valores a b =
     (it_ID a = it_ID b \<and> it_ProdutoID a = it_ProdutoID b \<and>
      it_Quantidade a = it_Quantidade b \<and> it_PrecoUnitario a = it_PrecoUnitario b \<and>
      it_Subtotal a = it_Subtotal b \<and> it_DeletedAt a = it_DeletedAt b)"

section \<open>A shop to run the code on\<close>

text \<open>
  The fixtures of the repository's tests, with prices as real numbers: one customer,
  a notebook and a mouse on sale, and a keyboard that is inactive. The webcam is a
  product that is not in the shop yet and is meant to be created inactive.
\<close>

definition joao :: Cliente where
  "joao = \<lparr>cli_ID = 1, cli_Nome = ''Joao Silva'', cli_Email = ''joao@example.com'',
     cli_CPF = ''12345678901'', cli_Telefone = [], cli_DeletedAt = None\<rparr>"

definition notebook :: "real Produto" where
  "notebook = \<lparr>prd_ID = 1, prd_Nome = ''Notebook'', prd_Descricao = [], prd_Preco = 2999.99,
     prd_Estoque = 10, prd_SKU = ''NB-001'', prd_Categoria = [], prd_Ativo = True,
     prd_DeletedAt = None\<rparr>"

definition mouse :: "real Produto" where
  "mouse = \<lparr>prd_ID = 2, prd_Nome = ''Mouse'', prd_Descricao = [], prd_Preco = 99.99,
     prd_Estoque = 5, prd_SKU = ''MS-001'', prd_Categoria = [], prd_Ativo = True,
     prd_DeletedAt = None\<rparr>"

definition teclado :: "real Produto" where
  "teclado = \<lparr>prd_ID = 3, prd_Nome = ''Teclado'', prd_Descricao = [], prd_Preco = 100,
     prd_Estoque = 4, prd_SKU = ''TC-001'', prd_Categoria = [], prd_Ativo = False,
     prd_DeletedAt = None\<rparr>"

definition loja :: "real database" where
  "loja = \<lparr>clientes = [joao], produtos = [notebook, mouse, teclado], pedidos = [],
     pedido_produtos = [], closed = False\<rparr>"

definition linha :: "uint \<Rightarrow> int \<Rightarrow> CreateItemPedidoRequest" where
  "linha pid q = \<lparr>rq_ProdutoID = pid, rq_Quantidade = q\<rparr>"

definition carrinho :: "uint \<Rightarrow> CreateItemPedidoRequest list \<Rightarrow> CreatePedidoRequest" where
  "carrinho cid linhas = \<lparr>rq_ClienteID = cid, rq_Itens = linhas, rq_Status = []\<rparr>"

text \<open>The shop after a first order, two notebooks, that was delivered.\<close>

definition pedido1 :: "real Pedido" where
  "pedido1 = \<lparr>ped_ID = 1, ped_ClienteID = 1, ped_Cliente = zero_Cliente, ped_Itens = [],
     ped_ValorTotal = 5999.98, ped_Status = ''entregue'', ped_DataPedido = 0,
     ped_DeletedAt = None\<rparr>"

definition item1 :: "real PedidoProduto" where
  "item1 = \<lparr>it_ID = 1, it_PedidoID = 1, it_ProdutoID = 1, it_Produto = zero_Produto,
     it_Quantidade = 2, it_PrecoUnitario = 2999.99, it_Subtotal = 5999.98,
     it_DeletedAt = None\<rparr>"

definition loja_com_pedido :: "real database" where
  "loja_com_pedido = loja\<lparr>pedidos := [pedido1], pedido_produtos := [item1]\<rparr>"

definition novo_preco :: "real UpdateProdutoRequest" where
  "novo_preco = \<lparr>upd_Nome = [], upd_Descricao = [], upd_Preco = 3499.99, upd_Estoque = 10,
     upd_SKU = [], upd_Categoria = [], upd_Ativo = None\<rparr>"

definition webcam :: "real CreateProdutoRequest" where
  "webcam = \<lparr>cp_Nome = ''Webcam'', cp_Descricao = [], cp_Preco = 199.9, cp_Estoque = 3,
     cp_SKU = ''WC-001'', cp_Categoria = [], cp_Ativo = Some False\<rparr>"

section \<open>Properties\<close>

subsection \<open>Lookups\<close>

lemma produtoRepo_FindByID_open: "produtoRepo_FindByID db pid = Inr p \<Longrightarrow> \<not> closed db"
  by (auto simp: produtoRepo_FindByID_def First_def split: if_splits)

lemma clienteRepo_FindByID_open: "\<not> closed db \<Longrightarrow> \<exists>c. clienteRepo_FindByID db cid = Inr c"
  by (auto simp: clienteRepo_FindByID_def First_def split: option.splits)

lemma loja_produtos:
  "produtoRepo_FindByID loja 1 = Inr notebook"
  "produtoRepo_FindByID loja (Suc 0) = Inr notebook"
  "produtoRepo_FindByID loja 2 = Inr mouse"
  "produtoRepo_FindByID loja 3 = Inr teclado"
  by (simp_all add: produtoRepo_FindByID_def First_def produto_vivo_def loja_def
      notebook_def mouse_def teclado_def)

lemma loja_clientes:
  "clienteRepo_FindByID loja 1 = Inr (Some joao)"
  "clienteRepo_FindByID loja (Suc 0) = Inr (Some joao)"
  by (simp_all add: clienteRepo_FindByID_def First_def cliente_vivo_def loja_def joao_def)

lemma carrinho_sel:
  "rq_ClienteID (carrinho cid linhas) = cid"
  "rq_Itens (carrinho cid linhas) = linhas"
  "rq_Status (carrinho cid linhas) = []"
  by (simp_all add: carrinho_def)

lemma linha_sel:
  "rq_ProdutoID (linha pid q) = pid"
  "rq_Quantidade (linha pid q) = q"
  by (simp_all add: linha_def)

lemma validate_carrinho:
  "cid \<noteq> 0 \<Longrightarrow> validate_CreatePedidoRequest (carrinho cid []) = [F_Itens]"
  "cid \<noteq> 0 \<Longrightarrow> 0 < p1 \<Longrightarrow> 0 < q1 \<Longrightarrow> validate_CreatePedidoRequest (carrinho cid [linha p1 q1]) = []"
  "cid \<noteq> 0 \<Longrightarrow> 0 < p1 \<Longrightarrow> 0 < q1 \<Longrightarrow> 0 < p2 \<Longrightarrow> 0 < q2 \<Longrightarrow>
     validate_CreatePedidoRequest (carrinho cid [linha p1 q1, linha p2 q2]) = []"
  by (simp_all add: validate_CreatePedidoRequest_def validate_CreateItemPedidoRequest_def
      carrinho_def linha_def enumerate_eq_zip)

subsection \<open>The loop over the lines\<close>

lemma linha_validaD:
  "linha_valida db r \<Longrightarrow>
   \<exists>p. produtoRepo_FindByID db (rq_ProdutoID r) = Inr p \<and> rq_Quantidade r \<le> prd_Estoque p \<and> prd_Ativo p"
  by (cases "produtoRepo_FindByID db (rq_ProdutoID r)") (simp_all add: linha_valida_def)

lemma linha_validaI:
  "produtoRepo_FindByID db (rq_ProdutoID r) = Inr p \<Longrightarrow> rq_Quantidade r \<le> prd_Estoque p
   \<Longrightarrow> prd_Ativo p \<Longrightarrow> linha_valida db r"
  by (simp add: linha_valida_def)

text \<open>Lines that pass validation are turned into items and added up; the loop goes on.\<close>

lemma Create_itens_validas:
  "list_all (linha_valida db) antes \<Longrightarrow>
   Create_itens float64 db (antes @ rest) itens valorTotal =
   Create_itens float64 db rest (itens @ map (linha_item float64 db) antes)
     (foldl (+) valorTotal (map (\<lambda>r. it_Subtotal (linha_item float64 db r)) antes))"
proof (induction antes arbitrary: itens valorTotal)
  case Nil
  then show ?case by simp
next
  case (Cons r antes)
  from Cons.prems have r: "linha_valida db r" and rest: "list_all (linha_valida db) antes"
    by simp_all
  from linha_validaD[OF r] obtain p where p: "produtoRepo_FindByID db (rq_ProdutoID r) = Inr p"
    and ok: "rq_Quantidade r \<le> prd_Estoque p" "prd_Ativo p"
    by blast
  show ?case
    using p ok Cons.IH[OF rest]
    by (simp add: linha_item_def preco_atual_def Let_def)
qed

text \<open>The loop ends well only when every line passes validation.\<close>

lemma Create_itens_Inr:
  "Create_itens float64 db reqs itens valorTotal = Inr (itens', soma)
   \<Longrightarrow> list_all (linha_valida db) reqs"
proof (induction reqs arbitrary: itens valorTotal)
  case Nil
  then show ?case by simp
next
  case (Cons r reqs)
  from Cons.prems obtain p where p: "produtoRepo_FindByID db (rq_ProdutoID r) = Inr p"
    by (cases "produtoRepo_FindByID db (rq_ProdutoID r)") simp_all
  from Cons.prems p have ok: "rq_Quantidade r \<le> prd_Estoque p" "prd_Ativo p"
    by (simp_all split: if_splits)
  from Cons.prems p ok obtain its tot
    where "Create_itens float64 db reqs its tot = Inr (itens', soma)"
    by (simp add: Let_def)
  then have "list_all (linha_valida db) reqs" by (rule Cons.IH)
  with linha_validaI[OF p ok] show ?case by simp
qed

text \<open>What the loop answers at the first line that does not pass.\<close>

lemma Create_itens_primeira_falha:
  assumes "list_all (linha_valida db) antes"
  shows "Create_itens float64 db (antes @ r # depois) itens valorTotal =
     (case produtoRepo_FindByID db (rq_ProdutoID r) of
        Inl err \<Rightarrow> Inl (ProdutoNaoEncontrado (string_of_rune (rune (rq_ProdutoID r))))
      | Inr p \<Rightarrow>
          if prd_Estoque p < rq_Quantidade r then Inl (EstoqueInsuficiente (prd_Nome p))
          else if \<not> prd_Ativo p then Inl (ProdutoInativo (prd_Nome p))
          else Create_itens float64 db depois
                 (itens @ map (linha_item float64 db) (antes @ [r]))
                 (foldl (+) valorTotal
                    (map (\<lambda>r. it_Subtotal (linha_item float64 db r)) (antes @ [r]))))"
  using assms
  by (simp add: Create_itens_validas linha_item_def preco_atual_def Let_def split: sum.splits)

text \<open>A request that passed validation and failed in the loop leaves the database as it was.\<close>

lemma pedido_Create_falha_no_laco:
  assumes "validate_CreatePedidoRequest req = []"
    and "\<not> closed db"
    and "Create_itens float64 db (rq_Itens req) [] 0 = Inl e"
  shows "pedido_Create float64 now db req = (db, Inl e)"
proof -
  from assms(2) obtain c where "clienteRepo_FindByID db (rq_ClienteID req) = Inr c"
    using clienteRepo_FindByID_open by blast
  with assms(1,3) show ?thesis by (simp add: pedido_Create_def)
qed

text \<open>The equations that run the code on the shop.\<close>

lemmas avaliar =
  pedido_Create_def validate_carrinho loja_clientes carrinho_sel linha_sel loja_produtos
  Let_def pedidoRepo_Create_def pedidoRepo_FindByID_def First_def next_id_def default_value_def
  BeforeSave_def pedido_row_def pedido_vivo_def preload_Cliente_def preload_Itens_def
  preload_Produto_def item_vivo_def pedido_toResponse_def item_toResponse_def
  produto_toResponse_def cliente_vivo_def produto_vivo_def

subsection \<open>Claims about order creation\<close>

text \<open>
  Claim C3. A request that passed the validation of its shape, in which the lines
  before some line all pass validation and that line's product has less stock than
  the quantity asked, fails with the insufficient-stock error that names the
  product. The database after the call is the database before it: no order, no
  line, and every product with the stock it had.
\<close>

theorem C3_estoque_insuficiente:
  assumes "validate_CreatePedidoRequest req = []"
    and "rq_Itens req = antes @ r # depois"
    and "list_all (linha_valida db) antes"
    and "produtoRepo_FindByID db (rq_ProdutoID r) = Inr produto"
    and "prd_Estoque produto < rq_Quantidade r"
  shows "pedido_Create float64 now db req = (db, Inl (EstoqueInsuficiente (prd_Nome produto)))"
proof -
  have "\<not> closed db" using assms(4) by (rule produtoRepo_FindByID_open)
  moreover have "Create_itens float64 db (rq_Itens req) [] 0
      = Inl (EstoqueInsuficiente (prd_Nome produto))"
    using assms(2-5) by (simp add: Create_itens_primeira_falha)
  ultimately show ?thesis using assms(1) by (simp add: pedido_Create_falha_no_laco)
qed

theorem C3_estoque_insuficiente_witness:
  "prd_Estoque mouse < 10 \<and>
   pedido_Create real_of_int 0 loja (carrinho 1 [linha 1 2, linha 2 10])
     = (loja, Inl (EstoqueInsuficiente ''Mouse''))"
proof -
  have v: "list_all (linha_valida loja) [linha 1 2]"
    by (simp add: linha_valida_def loja_produtos linha_sel notebook_def)
  have r: "produtoRepo_FindByID loja (rq_ProdutoID (linha 2 10)) = Inr mouse"
    by (simp add: linha_sel loja_produtos)
  have s: "prd_Estoque mouse < rq_Quantidade (linha 2 10)"
    by (simp add: linha_sel mouse_def)
  have i: "rq_Itens (carrinho 1 [linha 1 2, linha 2 10]) = [linha 1 2] @ linha 2 10 # []"
    by (simp add: carrinho_sel)
  have "validate_CreatePedidoRequest (carrinho 1 [linha 1 2, linha 2 10]) = []"
    by (simp add: validate_carrinho)
  from C3_estoque_insuficiente[OF this i v r s, of real_of_int 0]
  show ?thesis by (simp add: mouse_def)
qed

text \<open>
  Claim C4, as the code has it. A request that passed the validation of its shape,
  in which the lines before some line all pass validation and that line's product
  exists and is not active, fails and leaves the database as it was. The stock is
  checked before the active flag: the error is the inactive-product error that names
  the product when the stock covers the quantity asked, and the insufficient-stock
  error that names the product when it does not.
\<close>

theorem C4_produto_inativo:
  assumes "validate_CreatePedidoRequest req = []"
    and "rq_Itens req = antes @ r # depois"
    and "list_all (linha_valida db) antes"
    and "produtoRepo_FindByID db (rq_ProdutoID r) = Inr produto"
    and "\<not> prd_Ativo produto"
  shows "pedido_Create float64 now db req =
     (db, Inl (if prd_Estoque produto < rq_Quantidade r
               then EstoqueInsuficiente (prd_Nome produto)
               else ProdutoInativo (prd_Nome produto)))"
proof -
  have "\<not> closed db" using assms(4) by (rule produtoRepo_FindByID_open)
  moreover have "Create_itens float64 db (rq_Itens req) [] 0
      = Inl (if prd_Estoque produto < rq_Quantidade r
               then EstoqueInsuficiente (prd_Nome produto)
               else ProdutoInativo (prd_Nome produto))"
    using assms(2-5) by (simp add: Create_itens_primeira_falha)
  ultimately show ?thesis using assms(1) by (simp add: pedido_Create_falha_no_laco)
qed

theorem C4_produto_inativo_witness:
  "\<not> prd_Ativo teclado \<and>
   pedido_Create real_of_int 0 loja (carrinho 1 [linha 1 2, linha 3 1])
     = (loja, Inl (ProdutoInativo ''Teclado''))"
proof -
  have v: "list_all (linha_valida loja) [linha 1 2]"
    by (simp add: linha_valida_def loja_produtos linha_sel notebook_def)
  have r: "produtoRepo_FindByID loja (rq_ProdutoID (linha 3 1)) = Inr teclado"
    by (simp add: linha_sel loja_produtos)
  have s: "\<not> prd_Ativo teclado"
    by (simp add: teclado_def)
  have i: "rq_Itens (carrinho 1 [linha 1 2, linha 3 1]) = [linha 1 2] @ linha 3 1 # []"
    by (simp add: carrinho_sel)
  have "validate_CreatePedidoRequest (carrinho 1 [linha 1 2, linha 3 1]) = []"
    by (simp add: validate_carrinho)
  from C4_produto_inativo[OF this i v r s, of real_of_int 0]
  show ?thesis by (simp add: teclado_def linha_sel)
qed

text \<open>
  Claim C4 as stated fails: the keyboard is inactive and has 4 in stock; asking for 5
  is answered with the insufficient-stock error, not with the inactive-product error.
\<close>

theorem C4_counterexample:
  "produtoRepo_FindByID loja 3 = Inr teclado \<and> \<not> prd_Ativo teclado \<and>
   pedido_Create real_of_int 0 loja (carrinho 1 [linha 3 5])
     = (loja, Inl (EstoqueInsuficiente ''Teclado'')) \<and>
   snd (pedido_Create real_of_int 0 loja (carrinho 1 [linha 3 5]))
     \<noteq> Inl (ProdutoInativo ''Teclado'')"
  by (simp add: pedido_Create_def validate_carrinho loja_clientes carrinho_sel linha_sel
      loja_produtos teclado_def)

text \<open>
  Claim C7. A request with no line fails the validation of its shape: the error
  lists the field \<^verbatim>\<open>Itens\<close>, and the database is as it was.
\<close>

theorem C7_carrinho_vazio:
  assumes "rq_Itens req = []"
  shows "\<exists>campos. pedido_Create float64 now db req = (db, Inl (ValidationErrors campos))
           \<and> F_Itens \<in> set campos"
proof -
  obtain antes depois where "validate_CreatePedidoRequest req = antes @ F_Itens # depois"
    using assms by (simp add: validate_CreatePedidoRequest_def)
  then show ?thesis
    by (cases antes) (simp_all add: pedido_Create_def)
qed

theorem C7_carrinho_vazio_witness:
  "rq_Itens (carrinho 1 []) = [] \<and>
   pedido_Create real_of_int 0 loja (carrinho 1 []) = (loja, Inl (ValidationErrors [F_Itens]))"
  using C7_carrinho_vazio[of "carrinho 1 []" real_of_int 0 loja]
  by (simp add: pedido_Create_def validate_carrinho carrinho_sel)

text \<open>
  Claim C6, on the code. Two different product identifiers that do not resolve,
  55296 and 55297, get the same error value: the character that
  \<^verbatim>\<open>string(rune(id))\<close> makes of either is U+FFFD, so the identifier cannot be
  read back from the error.
\<close>

theorem C6_produto_nao_identificado:
  "pedido_Create real_of_int 0 loja (carrinho 1 [linha 55296 1])
     = (loja, Inl (ProdutoNaoEncontrado 0xFFFD)) \<and>
   pedido_Create real_of_int 0 loja (carrinho 1 [linha 55297 1])
     = (loja, Inl (ProdutoNaoEncontrado 0xFFFD))"
proof -
  have "produtoRepo_FindByID loja 55296 = Inl ProdutoNotFound"
       "produtoRepo_FindByID loja 55297 = Inl ProdutoNotFound"
    by (simp_all add: produtoRepo_FindByID_def First_def produto_vivo_def loja_def
        notebook_def mouse_def teclado_def)
  then show ?thesis
    by (simp add: pedido_Create_def validate_carrinho loja_clientes carrinho_sel linha_sel
      rune_def string_of_rune_def)
qed

subsection \<open>Storing a new order\<close>

lemma foldr_max_ge: "x \<in> set ids \<Longrightarrow> x \<le> foldr max ids (0::nat)"
  by (induction ids) auto

lemma next_id_fresh: "x \<in> set ids \<Longrightarrow> x < next_id ids"
  using foldr_max_ge[of x ids] by (simp add: next_id_def)

lemma find_append_novo:
  "find P rows = None \<Longrightarrow> P x \<Longrightarrow> find P (rows @ [x]) = Some x"
  by (induction rows) (auto split: if_splits)

lemma save_Itens_novos:
  "list_all (\<lambda>i. it_ID i = 0) itens \<Longrightarrow>
   \<exists>linhas novos. save_Itens float64 pid rows itens = (rows @ linhas, novos)
      \<and> list_all2 (item_salvo float64 pid) linhas itens \<and> length novos = length itens"
proof (induction itens arbitrary: rows)
  case Nil
  then show ?case by simp
next
  case (Cons item itens)
  let ?i = "(BeforeSave float64 item)\<lparr>it_PedidoID := pid, it_ID := next_id (map it_ID rows)\<rparr>"
  let ?row = "?i\<lparr>it_Produto := zero_Produto\<rparr>"
  from Cons.prems have z: "it_ID item = 0" and rest: "list_all (\<lambda>i. it_ID i = 0) itens"
    by simp_all
  from Cons.IH[OF rest, of "rows @ [?row]"] obtain linhas novos
    where s: "save_Itens float64 pid (rows @ [?row]) itens = ((rows @ [?row]) @ linhas, novos)"
      and l: "list_all2 (item_salvo float64 pid) linhas itens" and n: "length novos = length itens"
    by blast
  have "item_salvo float64 pid ?row item"
    by (simp add: item_salvo_def BeforeSave_def)
  with l have "list_all2 (item_salvo float64 pid) (?row # linhas) (item # itens)" by simp
  moreover have "save_Itens float64 pid rows (item # itens) = (rows @ ?row # linhas, ?i # novos)"
    using z s by (simp add: BeforeSave_def Let_def)
  ultimately show ?case using n
    by (intro exI[of _ "?row # linhas"] exI[of _ "?i # novos"]) simp
qed

lemma Create_itens_resultado:
  assumes "Create_itens float64 db reqs [] 0 = Inr (itens, soma)"
  shows "itens = map (linha_item float64 db) reqs"
    and "soma = foldl (+) 0 (map (\<lambda>r. float64 (rq_Quantidade r) * preco_atual db (rq_ProdutoID r)) reqs)"
proof -
  have "list_all (linha_valida db) reqs" using assms by (rule Create_itens_Inr)
  from Create_itens_validas[OF this, of float64 "[]" "[]" 0] assms
  show "itens = map (linha_item float64 db) reqs"
    and "soma = foldl (+) 0 (map (\<lambda>r. float64 (rq_Quantidade r) * preco_atual db (rq_ProdutoID r)) reqs)"
    by (simp_all add: linha_item_def)
qed

lemma linhas_gravadas:
  assumes "list_all2 (item_salvo float64 pid) linhas (map (linha_item float64 db) reqs)"
  shows "list_all2 (linha_gravada float64 db pid) linhas reqs"
  using assms unfolding list_all2_map2
  by (rule list_all2_mono) (simp add: item_salvo_def linha_gravada_def linha_item_def)

lemma soma_dos_subtotais:
  "list_all2 (linha_gravada float64 db pid) linhas reqs \<Longrightarrow>
   map it_Subtotal linhas = map (\<lambda>r. float64 (rq_Quantidade r) * preco_atual db (rq_ProdutoID r)) reqs"
  by (induction linhas reqs rule: list_all2_induct) (simp_all add: linha_gravada_def)

lemma pedido_Create_passos:
  assumes "validate_CreatePedidoRequest req = []"
    and "clienteRepo_FindByID db (rq_ClienteID req) = Inr c"
    and "Create_itens float64 db (rq_Itens req) [] 0 = Inr (itens, soma)"
    and "pedidoRepo_Create float64 db
      \<lparr>ped_ID = 0, ped_ClienteID = rq_ClienteID req, ped_Cliente = zero_Cliente,
       ped_Itens = itens, ped_ValorTotal = soma,
       ped_Status = (if rq_Status req = [] then ''pendente'' else rq_Status req),
       ped_DataPedido = now, ped_DeletedAt = None\<rparr> = (db1, Inr p1)"
    and "pedidoRepo_FindByID db1 (ped_ID p1) = Inr pc"
  shows "pedido_Create float64 now db req =
      (db1, case c of None \<Rightarrow> Inl PanicNilDereference
            | Some cl \<Rightarrow> Inr (pedido_toResponse (pc\<lparr>ped_Cliente := cl\<rparr>)))"
  using assms by (simp add: pedido_Create_def Let_def split: option.splits)

lemma pedidoRepo_Create_novo:
  assumes "\<not> closed db" and "list_all (\<lambda>i. it_ID i = 0) (ped_Itens pedido)"
  shows "\<exists>row linhas p1.
      pedidoRepo_Create float64 db pedido
        = (db\<lparr>pedidos := pedidos db @ [row], pedido_produtos := pedido_produtos db @ linhas\<rparr>, Inr p1)
    \<and> ped_ID p1 = next_id (map ped_ID (pedidos db)) \<and> ped_ID row = ped_ID p1
    \<and> ped_ValorTotal row = ped_ValorTotal pedido \<and> ped_DeletedAt row = ped_DeletedAt pedido
    \<and> list_all2 (item_salvo float64 (ped_ID p1)) linhas (ped_Itens pedido)"
proof -
  let ?pid = "next_id (map ped_ID (pedidos db))"
  from save_Itens_novos[OF assms(2), of float64 ?pid "pedido_produtos db"] obtain linhas novos
    where s: "save_Itens float64 ?pid (pedido_produtos db) (ped_Itens pedido)
                = (pedido_produtos db @ linhas, novos)"
      and l: "list_all2 (item_salvo float64 ?pid) linhas (ped_Itens pedido)"
    by blast
  let ?p = "pedido\<lparr>ped_ID := ?pid,
                     ped_Status := default_value [] ''pendente'' (ped_Status pedido)\<rparr>"
  have "pedidoRepo_Create float64 db pedido
      = (db\<lparr>pedidos := pedidos db @ [pedido_row ?p],
            pedido_produtos := pedido_produtos db @ linhas\<rparr>, Inr (?p\<lparr>ped_Itens := novos\<rparr>))"
    using assms(1) s by (simp add: pedidoRepo_Create_def Let_def)
  then show ?thesis
    by (intro exI[of _ "pedido_row ?p"] exI[of _ linhas] exI[of _ "?p\<lparr>ped_Itens := novos\<rparr>"])
       (simp add: l pedido_row_def)
qed

lemma pedidoRepo_FindByID_novo:
  assumes "\<not> closed db" and "ped_ID row = next_id (map ped_ID (pedidos db))"
    and "ped_DeletedAt row = None"
  shows "\<exists>pc. pedidoRepo_FindByID
             (db\<lparr>pedidos := pedidos db @ [row], pedido_produtos := linhas\<rparr>) (ped_ID row) = Inr pc
           \<and> ped_ID pc = ped_ID row \<and> ped_ValorTotal pc = ped_ValorTotal row"
proof -
  have "\<not> pedido_vivo (ped_ID row) x" if "x \<in> set (pedidos db)" for x
    using next_id_fresh[of "ped_ID x" "map ped_ID (pedidos db)"] that assms(2)
    by (simp add: pedido_vivo_def)
  then have "find (pedido_vivo (ped_ID row)) (pedidos db) = None"
    by (simp add: find_None_iff)
  then have "find (pedido_vivo (ped_ID row)) (pedidos db @ [row]) = Some row"
    using assms(3) by (simp add: find_append_novo pedido_vivo_def)
  then show ?thesis
    using assms(1) by (simp add: pedidoRepo_FindByID_def First_def)
qed

lemma pedido_Create_sucesso:
  assumes "validate_CreatePedidoRequest req = []"
    and "clienteRepo_FindByID db (rq_ClienteID req) = Inr (Some c)"
    and "list_all (linha_valida db) (rq_Itens req)"
  shows "\<exists>db' resp. pedido_Create float64 now db req = (db', Inr resp)"
proof -
  from assms(2) have o: "\<not> closed db"
    by (auto simp: clienteRepo_FindByID_def First_def split: if_splits)
  from Create_itens_validas[OF assms(3), of float64 "[]" "[]" 0] obtain itens soma
    where laco: "Create_itens float64 db (rq_Itens req) [] 0 = Inr (itens, soma)"
    by simp
  note r = Create_itens_resultado[OF laco]
  define pedido0 where "pedido0 =
      \<lparr>ped_ID = 0, ped_ClienteID = rq_ClienteID req, ped_Cliente = zero_Cliente,
       ped_Itens = itens, ped_ValorTotal = soma,
       ped_Status = (if rq_Status req = [] then ''pendente'' else rq_Status req),
       ped_DataPedido = now, ped_DeletedAt = None\<rparr>"
  have sel: "ped_Itens pedido0 = itens" "ped_DeletedAt pedido0 = None"
    by (simp_all add: pedido0_def)
  have "list_all (\<lambda>i. it_ID i = 0) (ped_Itens pedido0)"
    by (simp add: sel r(1) list_all_iff linha_item_def)
  from pedidoRepo_Create_novo[OF o this, of float64] obtain row linhas p1
    where cr: "pedidoRepo_Create float64 db pedido0
        = (db\<lparr>pedidos := pedidos db @ [row], pedido_produtos := pedido_produtos db @ linhas\<rparr>, Inr p1)"
      and p1: "ped_ID p1 = next_id (map ped_ID (pedidos db))" and row: "ped_ID row = ped_ID p1"
      and del: "ped_DeletedAt row = None"
    unfolding sel by blast
  from pedidoRepo_FindByID_novo[OF o _ del, of "pedido_produtos db @ linhas"] p1 row
  obtain pc where fb: "pedidoRepo_FindByID
      (db\<lparr>pedidos := pedidos db @ [row], pedido_produtos := pedido_produtos db @ linhas\<rparr>)
      (ped_ID p1) = Inr pc"
    by auto
  from pedido_Create_passos[OF assms(1,2) laco cr[unfolded pedido0_def] fb]
  show ?thesis by simp
qed

text \<open>
  Claim C2. When \<^verbatim>\<open>Create\<close> succeeds, the database has one more order and that
  order's lines, one for each requested line and in the same order. Each line holds
  the product's unit price as it was when the request arrived and the subtotal
  \<^verbatim>\<open>float64(quantity) * price\<close>; the order's total is the sum, from zero and from
  the first line to the last, of these subtotals, and the response carries it.
\<close>

theorem C2_total_do_pedido:
  assumes "pedido_Create float64 now db req = (db', Inr resp)"
  shows "\<exists>pedido linhas.
      pedidos db' = pedidos db @ [pedido] \<and> pedido_produtos db' = pedido_produtos db @ linhas
    \<and> ped_ID pedido = rs_ID resp
    \<and> list_all2 (linha_gravada float64 db (rs_ID resp)) linhas (rq_Itens req)
    \<and> ped_ValorTotal pedido = foldl (+) 0 (map it_Subtotal linhas)
    \<and> ped_ValorTotal pedido
        = foldl (+) 0 (map (\<lambda>r. float64 (rq_Quantidade r) * preco_atual db (rq_ProdutoID r)) (rq_Itens req))
    \<and> rs_ValorTotal resp = ped_ValorTotal pedido"
proof -
  from assms have v: "validate_CreatePedidoRequest req = []"
    by (cases "validate_CreatePedidoRequest req") (simp_all add: pedido_Create_def)
  from assms v obtain c where c: "clienteRepo_FindByID db (rq_ClienteID req) = Inr c"
    by (cases "clienteRepo_FindByID db (rq_ClienteID req)") (simp_all add: pedido_Create_def)
  then have o: "\<not> closed db"
    by (auto simp: clienteRepo_FindByID_def First_def split: if_splits)
  from assms v c obtain itens soma
    where laco: "Create_itens float64 db (rq_Itens req) [] 0 = Inr (itens, soma)"
    by (cases "Create_itens float64 db (rq_Itens req) [] 0") (auto simp: pedido_Create_def)
  note r = Create_itens_resultado[OF laco]
  define pedido0 where "pedido0 =
      \<lparr>ped_ID = 0, ped_ClienteID = rq_ClienteID req, ped_Cliente = zero_Cliente,
       ped_Itens = itens, ped_ValorTotal = soma,
       ped_Status = (if rq_Status req = [] then ''pendente'' else rq_Status req),
       ped_DataPedido = now, ped_DeletedAt = None\<rparr>"
  have sel: "ped_Itens pedido0 = itens" "ped_ValorTotal pedido0 = soma" "ped_DeletedAt pedido0 = None"
    by (simp_all add: pedido0_def)
  have "list_all (\<lambda>i. it_ID i = 0) (ped_Itens pedido0)"
    by (simp add: sel r(1) list_all_iff linha_item_def)
  from pedidoRepo_Create_novo[OF o this, of float64] obtain row linhas p1
    where cr: "pedidoRepo_Create float64 db pedido0
        = (db\<lparr>pedidos := pedidos db @ [row], pedido_produtos := pedido_produtos db @ linhas\<rparr>, Inr p1)"
      and p1: "ped_ID p1 = next_id (map ped_ID (pedidos db))" and row: "ped_ID row = ped_ID p1"
      and tot: "ped_ValorTotal row = soma" and del: "ped_DeletedAt row = None"
      and l: "list_all2 (item_salvo float64 (ped_ID p1)) linhas itens"
    unfolding sel by blast
  define db1 where "db1 = db\<lparr>pedidos := pedidos db @ [row], pedido_produtos := pedido_produtos db @ linhas\<rparr>"
  from pedidoRepo_FindByID_novo[OF o _ del, of "pedido_produtos db @ linhas"] p1 row
  obtain pc where fb: "pedidoRepo_FindByID db1 (ped_ID p1) = Inr pc"
      and pc: "ped_ID pc = ped_ID p1" "ped_ValorTotal pc = soma"
    unfolding db1_def tot by auto
  have "pedido_Create float64 now db req =
      (db1, case c of None \<Rightarrow> Inl PanicNilDereference
            | Some cl \<Rightarrow> Inr (pedido_toResponse (pc\<lparr>ped_Cliente := cl\<rparr>)))"
    using v c laco cr[folded db1_def, unfolded pedido0_def] fb by (rule pedido_Create_passos)
  with assms have db': "db' = db1" and "\<exists>cl. resp = pedido_toResponse (pc\<lparr>ped_Cliente := cl\<rparr>)"
    by (auto split: option.splits)
  then obtain cl where resp: "resp = pedido_toResponse (pc\<lparr>ped_Cliente := cl\<rparr>)"
    by blast
  have id: "rs_ID resp = ped_ID p1"
    by (simp add: resp pedido_toResponse_def pc)
  have g: "list_all2 (linha_gravada float64 db (ped_ID p1)) linhas (rq_Itens req)"
    using l unfolding r(1) by (rule linhas_gravadas)
  show ?thesis
  proof (intro exI[of _ row] exI[of _ linhas] conjI)
    show "pedidos db' = pedidos db @ [row]" by (simp add: db' db1_def)
    show "pedido_produtos db' = pedido_produtos db @ linhas" by (simp add: db' db1_def)
    show "ped_ID row = rs_ID resp" by (simp add: id row)
    show "list_all2 (linha_gravada float64 db (rs_ID resp)) linhas (rq_Itens req)"
      using g by (simp add: id)
    show "ped_ValorTotal row = foldl (+) 0 (map it_Subtotal linhas)"
      by (simp add: tot r(2) soma_dos_subtotais[OF g])
    show "ped_ValorTotal row
        = foldl (+) 0 (map (\<lambda>r. float64 (rq_Quantidade r) * preco_atual db (rq_ProdutoID r)) (rq_Itens req))"
      by (simp add: tot r(2))
    show "rs_ValorTotal resp = ped_ValorTotal row"
      by (simp add: resp pedido_toResponse_def pc tot)
  qed
qed

theorem C2_total_do_pedido_witness:
  "\<exists>db' resp. pedido_Create real_of_int 0 loja (carrinho 1 [linha 1 2, linha 2 1]) = (db', Inr resp)
     \<and> map ped_ValorTotal (pedidos db') = [6099.97]
     \<and> map it_Subtotal (pedido_produtos db') = [5999.98, 99.99]
     \<and> rs_ValorTotal resp = 6099.97"
proof -
  have "list_all (linha_valida loja) (rq_Itens (carrinho 1 [linha 1 2, linha 2 1]))"
    by (simp add: carrinho_sel linha_valida_def loja_produtos linha_sel notebook_def mouse_def)
  from pedido_Create_sucesso[OF _ _ this, of joao real_of_int 0] obtain db' resp
    where eq: "pedido_Create real_of_int 0 loja (carrinho 1 [linha 1 2, linha 2 1]) = (db', Inr resp)"
    by (auto simp: validate_carrinho carrinho_sel loja_clientes)
  from C2_total_do_pedido[OF eq] obtain pedido linhas
    where a: "pedidos db' = pedidos loja @ [pedido]"
      and b: "pedido_produtos db' = pedido_produtos loja @ linhas"
      and g: "list_all2 (linha_gravada real_of_int loja (rs_ID resp)) linhas
                (rq_Itens (carrinho 1 [linha 1 2, linha 2 1]))"
      and t: "ped_ValorTotal pedido = foldl (+) 0
                (map (\<lambda>r. real_of_int (rq_Quantidade r) * preco_atual loja (rq_ProdutoID r))
                   (rq_Itens (carrinho 1 [linha 1 2, linha 2 1])))"
      and u: "rs_ValorTotal resp = ped_ValorTotal pedido"
    by blast
  have p: "preco_atual loja 1 = 2999.99" "preco_atual loja (Suc 0) = 2999.99" "preco_atual loja 2 = 99.99"
    by (simp_all add: preco_atual_def loja_produtos notebook_def mouse_def)
  have t': "ped_ValorTotal pedido = 6099.97"
    unfolding t by (simp add: carrinho_sel linha_sel p)
  have "map it_Subtotal linhas = [5999.98, 99.99]"
    unfolding soma_dos_subtotais[OF g] by (simp add: carrinho_sel linha_sel p)
  with eq a b t' u show ?thesis
    by (simp add: loja_def)
qed

text \<open>
  Claim C1, on the code. Customer 999 does not exist; the repository answers with no
  customer and no error, so \<^verbatim>\<open>Create\<close> goes on, stores the order and its line, and
  panics when it reads the customer at the end.
\<close>

theorem C1_cliente_inexistente:
  "clienteRepo_FindByID loja 999 = Inr None \<and>
   snd (pedido_Create real_of_int 0 loja (carrinho 999 [linha 1 2])) = Inl PanicNilDereference \<and>
   map ped_ClienteID (pedidos (fst (pedido_Create real_of_int 0 loja (carrinho 999 [linha 1 2])))) = [999] \<and>
   map it_ProdutoID (pedido_produtos (fst (pedido_Create real_of_int 0 loja (carrinho 999 [linha 1 2])))) = [1]"
proof -
  have c: "clienteRepo_FindByID loja 999 = Inr None"
    by (simp add: clienteRepo_FindByID_def First_def cliente_vivo_def loja_def joao_def)
  have "Create_itens real_of_int loja [linha 1 2] [] 0 = Inr ([linha_item real_of_int loja (linha 1 2)], 0 + 2 * 2999.99)"
    by (simp add: loja_produtos linha_sel notebook_def linha_item_def preco_atual_def Let_def)
  with c show ?thesis
    apply (simp add: pedido_Create_def validate_carrinho carrinho_sel Let_def)
    apply (simp add: avaliar loja_def linha_item_def)
    done
qed

lemma Create_itens_erros:
  "Create_itens float64 db reqs itens valorTotal = Inl e \<Longrightarrow> e \<noteq> ClienteNaoEncontrado"
proof (induction reqs arbitrary: itens valorTotal)
  case Nil
  then show ?case by simp
next
  case (Cons r reqs)
  show ?case
  proof (cases "produtoRepo_FindByID db (rq_ProdutoID r)")
    case (Inl err)
    with Cons.prems show ?thesis by auto
  next
    case (Inr p)
    with Cons.prems Cons.IH show ?thesis
      by (auto simp: Let_def split: if_splits)
  qed
qed

lemma pedidoRepo_Create_open:
  "\<not> closed db \<Longrightarrow> \<exists>db1 p1. pedidoRepo_Create float64 db pedido = (db1, Inr p1)"
  by (cases "save_Itens float64 (next_id (map ped_ID (pedidos db))) (pedido_produtos db) (ped_Itens pedido)")
     (simp add: pedidoRepo_Create_def Let_def)

lemma pedidoRepo_FindByID_erros: "pedidoRepo_FindByID db id' \<noteq> Inl ClienteNaoEncontrado"
  by (simp add: pedidoRepo_FindByID_def First_def split: option.splits)

text \<open>With the database at work, no request is answered with the customer-not-found error.\<close>

lemma pedido_Create_cliente_nao_encontrado:
  assumes "\<not> closed db"
  shows "snd (pedido_Create float64 now db req) \<noteq> Inl ClienteNaoEncontrado"
proof (cases "validate_CreatePedidoRequest req")
  case (Cons e es)
  then show ?thesis by (simp add: pedido_Create_def)
next
  case Nil
  from assms obtain c where c: "clienteRepo_FindByID db (rq_ClienteID req) = Inr c"
    using clienteRepo_FindByID_open by blast
  show ?thesis
  proof (cases "Create_itens float64 db (rq_Itens req) [] 0")
    case (Inl e)
    with Create_itens_erros[OF Inl] Nil c show ?thesis by (simp add: pedido_Create_def)
  next
    case (Inr res)
    obtain itens soma where res: "res = (itens, soma)" by (cases res)
    from pedidoRepo_Create_open[OF assms] obtain db1 p1
      where cr: "pedidoRepo_Create float64 db
        \<lparr>ped_ID = 0, ped_ClienteID = rq_ClienteID req, ped_Cliente = zero_Cliente,
         ped_Itens = itens, ped_ValorTotal = soma,
         ped_Status = (if rq_Status req = [] then ''pendente'' else rq_Status req),
         ped_DataPedido = now, ped_DeletedAt = None\<rparr> = (db1, Inr p1)"
      by blast
    show ?thesis
    proof (cases "pedidoRepo_FindByID db1 (ped_ID p1)")
      case (Inl e)
      with pedidoRepo_FindByID_erros[of db1 "ped_ID p1"] have "e \<noteq> ClienteNaoEncontrado" by auto
      with Nil c Inr res cr Inl show ?thesis by (simp add: pedido_Create_def Let_def)
    next
      case (Inr pc)
      from pedido_Create_passos[OF Nil c _ cr Inr] \<open>Create_itens float64 db (rq_Itens req) [] 0 = Inr res\<close> res
      show ?thesis by (simp split: option.splits)
    qed
  qed
qed

subsection \<open>Claims about the status of an order\<close>

lemma pedidoRepo_FindByID_Inr:
  assumes "pedidoRepo_FindByID db id' = Inr pedido"
  shows "\<not> closed db" and "ped_ID pedido = id'" and "ped_DeletedAt pedido = None"
    and "id' \<in> set (map ped_ID (pedidos db))"
proof -
  from assms show o: "\<not> closed db"
    by (auto simp: pedidoRepo_FindByID_def First_def split: if_splits)
  with assms obtain row where f: "find (pedido_vivo id') (pedidos db) = Some row"
    and p: "pedido = row\<lparr>ped_Cliente := preload_Cliente db (ped_ClienteID row),
                        ped_Itens := preload_Itens db id'\<rparr>"
    by (auto simp: pedidoRepo_FindByID_def First_def split: option.splits)
  from f have v: "pedido_vivo id' row" and m: "row \<in> set (pedidos db)"
    by (auto simp: find_Some_iff)
  from v p show "ped_ID pedido = id'" and "ped_DeletedAt pedido = None"
    by (simp_all add: pedido_vivo_def)
  from v m show "id' \<in> set (map ped_ID (pedidos db))"
    by (auto simp: pedido_vivo_def)
qed

lemma find_substituido:
  assumes "k \<in> set (map key rows)" and "P novo" and "\<And>r. P r \<Longrightarrow> key r = k"
  shows "find P (map (\<lambda>r. if key r = k then novo else r) rows) = Some novo"
  using assms(1)
proof (induction rows)
  case Nil
  then show ?case by simp
next
  case (Cons r rows)
  then show ?case using assms(2,3) by auto
qed

lemma find_upsert:
  assumes "ped_ID novo \<in> set (map ped_ID rows)" and "ped_DeletedAt novo = None"
  shows "find (pedido_vivo (ped_ID novo)) (upsert ped_ID novo rows) = Some novo"
proof -
  have "find (pedido_vivo (ped_ID novo)) (map (\<lambda>r. if ped_ID r = ped_ID novo then novo else r) rows)
      = Some novo"
    using assms(1) by (rule find_substituido) (simp_all add: pedido_vivo_def assms(2))
  with assms(1) show ?thesis by (simp add: upsert_def)
qed

lemma save_Itens_total: "\<exists>rows' itens'. save_Itens float64 pid rows itens = (rows', itens')"
  by (cases "save_Itens float64 pid rows itens") simp

lemma loja_com_pedido_1:
  "\<exists>p. pedidoRepo_FindByID loja_com_pedido 1 = Inr p \<and> ped_Status p = ''entregue''"
  by (simp add: pedidoRepo_FindByID_def First_def loja_com_pedido_def loja_def pedido1_def
      pedido_vivo_def)

lemma loja_com_pedido_999: "pedidoRepo_FindByID loja_com_pedido 999 = Inl PedidoNotFound"
  by (simp add: pedidoRepo_FindByID_def First_def loja_com_pedido_def loja_def pedido1_def
      pedido_vivo_def)

text \<open>
  Claim C5. The five words the code accepts are \<^verbatim>\<open>pendente\<close>, \<^verbatim>\<open>pago\<close>,
  \<^verbatim>\<open>enviado\<close>, \<^verbatim>\<open>entregue\<close> and \<^verbatim>\<open>cancelado\<close>: the specification's
  pending, paid, shipped, delivered and cancelled. When the requested status is one
  of them and the order is found, the update succeeds whatever status the order had:
  the response and the stored order carry the requested status. Any other status
  fails with the validation error on \<^verbatim>\<open>Status\<close>. A request with an accepted
  status for an order that is not found fails with the not-found error.
\<close>

theorem C5_atualizar_status:
  "(up_Status req \<in> set status_oneof \<and> pedidoRepo_FindByID db id' = Inr pedido \<longrightarrow>
      (\<exists>db' resp pedido'. pedido_UpdateStatus float64 db id' req = (db', Inr resp)
          \<and> rs_ID resp = id' \<and> rs_Status resp = up_Status req
          \<and> pedidoRepo_FindByID db' id' = Inr pedido' \<and> ped_Status pedido' = up_Status req))
   \<and> (up_Status req \<notin> set status_oneof \<longrightarrow>
        pedido_UpdateStatus float64 db id' req = (db, Inl (ValidationErrors [F_Status])))
   \<and> (up_Status req \<in> set status_oneof \<and> pedidoRepo_FindByID db id' = Inl PedidoNotFound \<longrightarrow>
        pedido_UpdateStatus float64 db id' req = (db, Inl PedidoNotFound))"
proof (intro conjI impI)
  assume "up_Status req \<notin> set status_oneof"
  then show "pedido_UpdateStatus float64 db id' req = (db, Inl (ValidationErrors [F_Status]))"
    by (simp add: pedido_UpdateStatus_def validate_UpdatePedidoRequest_def)
next
  assume a: "up_Status req \<in> set status_oneof \<and> pedidoRepo_FindByID db id' = Inl PedidoNotFound"
  then have "up_Status req \<noteq> []" by (auto simp: status_oneof_def)
  with a show "pedido_UpdateStatus float64 db id' req = (db, Inl PedidoNotFound)"
    by (simp add: pedido_UpdateStatus_def validate_UpdatePedidoRequest_def)
next
  assume a: "up_Status req \<in> set status_oneof \<and> pedidoRepo_FindByID db id' = Inr pedido"
  then have v: "validate_UpdatePedidoRequest req = []"
    by (auto simp: validate_UpdatePedidoRequest_def status_oneof_def)
  from a have f: "pedidoRepo_FindByID db id' = Inr pedido" by simp
  note p = pedidoRepo_FindByID_Inr[OF f]
  define novo where "novo = pedido\<lparr>ped_Status := up_Status req\<rparr>"
  have n: "ped_ID novo = id'" "ped_DeletedAt novo = None" "ped_Status novo = up_Status req"
    by (simp_all add: novo_def p)
  obtain rows itens where s: "save_Itens float64 id' (pedido_produtos db) (ped_Itens novo) = (rows, itens)"
    using save_Itens_total by blast
  define db' where "db' = db\<lparr>pedidos := upsert ped_ID (pedido_row novo) (pedidos db), pedido_produtos := rows\<rparr>"
  have u: "pedidoRepo_Update float64 db novo = (db', Inr (novo\<lparr>ped_Itens := itens\<rparr>))"
    using p(1) s by (simp add: pedidoRepo_Update_def n db'_def)
  have r: "ped_ID (pedido_row novo) = id'" "ped_DeletedAt (pedido_row novo) = None"
    "ped_Status (pedido_row novo) = up_Status req"
    by (simp_all add: pedido_row_def n)
  have "find (pedido_vivo id') (pedidos db') = Some (pedido_row novo)"
    using find_upsert[of "pedido_row novo" "pedidos db"] p(4) r by (simp add: db'_def)
  then obtain pedido' where g: "pedidoRepo_FindByID db' id' = Inr pedido'"
    and st: "ped_Status pedido' = up_Status req"
    using p(1) r by (simp add: pedidoRepo_FindByID_def First_def db'_def)
  have "pedido_UpdateStatus float64 db id' req = (db', Inr (pedido_toResponse (novo\<lparr>ped_Itens := itens\<rparr>)))"
    using v f u by (simp add: pedido_UpdateStatus_def novo_def)
  moreover have "rs_ID (pedido_toResponse (novo\<lparr>ped_Itens := itens\<rparr>)) = id'"
    "rs_Status (pedido_toResponse (novo\<lparr>ped_Itens := itens\<rparr>)) = up_Status req"
    by (simp_all add: pedido_toResponse_def n)
  ultimately show "\<exists>db' resp pedido'. pedido_UpdateStatus float64 db id' req = (db', Inr resp)
          \<and> rs_ID resp = id' \<and> rs_Status resp = up_Status req
          \<and> pedidoRepo_FindByID db' id' = Inr pedido' \<and> ped_Status pedido' = up_Status req"
    using g st by blast
qed

theorem C5_atualizar_status_witness:
  "(\<exists>db' resp pedido'.
       pedido_UpdateStatus real_of_int loja_com_pedido 1 \<lparr>up_Status = ''pendente''\<rparr> = (db', Inr resp)
     \<and> rs_ID resp = 1 \<and> rs_Status resp = ''pendente''
     \<and> pedidoRepo_FindByID db' 1 = Inr pedido' \<and> ped_Status pedido' = ''pendente'')
   \<and> pedido_UpdateStatus real_of_int loja_com_pedido 1 \<lparr>up_Status = ''confirmado''\<rparr>
       = (loja_com_pedido, Inl (ValidationErrors [F_Status]))
   \<and> pedido_UpdateStatus real_of_int loja_com_pedido 999 \<lparr>up_Status = ''pago''\<rparr>
       = (loja_com_pedido, Inl PedidoNotFound)"
proof -
  from loja_com_pedido_1 obtain p where p: "pedidoRepo_FindByID loja_com_pedido 1 = Inr p"
    by blast
  have a: "up_Status \<lparr>up_Status = ''pendente''\<rparr> \<in> set status_oneof"
    and b: "up_Status \<lparr>up_Status = ''confirmado''\<rparr> \<notin> set status_oneof"
    and c: "up_Status \<lparr>up_Status = ''pago''\<rparr> \<in> set status_oneof"
    by (simp_all add: status_oneof_def)
  from C5_atualizar_status[of "\<lparr>up_Status = ''pendente''\<rparr>" loja_com_pedido 1 p real_of_int] a p
  have 1: "\<exists>db' resp pedido'.
       pedido_UpdateStatus real_of_int loja_com_pedido 1 \<lparr>up_Status = ''pendente''\<rparr> = (db', Inr resp)
     \<and> rs_ID resp = 1 \<and> rs_Status resp = ''pendente''
     \<and> pedidoRepo_FindByID db' 1 = Inr pedido' \<and> ped_Status pedido' = ''pendente''"
    by simp
  from C5_atualizar_status[of "\<lparr>up_Status = ''confirmado''\<rparr>" loja_com_pedido 1 p real_of_int] b
  have 2: "pedido_UpdateStatus real_of_int loja_com_pedido 1 \<lparr>up_Status = ''confirmado''\<rparr>
       = (loja_com_pedido, Inl (ValidationErrors [F_Status]))"
    by simp
  from C5_atualizar_status[of "\<lparr>up_Status = ''pago''\<rparr>" loja_com_pedido 999 p real_of_int] c
    loja_com_pedido_999
  have 3: "pedido_UpdateStatus real_of_int loja_com_pedido 999 \<lparr>up_Status = ''pago''\<rparr>
       = (loja_com_pedido, Inl PedidoNotFound)"
    by simp
  from 1 2 3 show ?thesis by blast
qed

text \<open>
  Claim C10. A status outside the five allowed words is refused by the validation of
  the request, whatever the order identifier: when the identifier does not resolve
  the result is still the validation error on \<^verbatim>\<open>Status\<close>, not the not-found
  error, and the database is as it was.
\<close>

theorem C10_status_antes_da_busca:
  assumes "up_Status req \<notin> set status_oneof"
    and "pedidoRepo_FindByID db id' = Inl PedidoNotFound"
  shows "pedido_UpdateStatus float64 db id' req = (db, Inl (ValidationErrors [F_Status]))"
  using assms(1) by (simp add: pedido_UpdateStatus_def validate_UpdatePedidoRequest_def)

theorem C10_status_antes_da_busca_witness:
  "pedidoRepo_FindByID loja 999 = Inl PedidoNotFound \<and>
   pedido_UpdateStatus real_of_int loja 999 \<lparr>up_Status = ''confirmado''\<rparr>
     = (loja, Inl (ValidationErrors [F_Status]))"
proof -
  have a: "up_Status \<lparr>up_Status = ''confirmado''\<rparr> \<notin> set status_oneof"
    by (simp add: status_oneof_def)
  have b: "pedidoRepo_FindByID loja 999 = Inl PedidoNotFound"
    by (simp add: pedidoRepo_FindByID_def First_def loja_def)
  from C10_status_antes_da_busca[OF a b, of real_of_int] b show ?thesis by simp
qed

subsection \<open>Claims about products\<close>

lemma produto_Update_pedidos:
  assumes "produto_Update db id' req = (db1, r)"
  shows "pedidos db1 = pedidos db" and "pedido_produtos db1 = pedido_produtos db"
  using assms
  by (auto simp: produto_Update_def produtoRepo_Update_def
      split: list.splits sum.splits option.splits if_splits)

lemma mesmos_valores_refl: "mesmos_valores a a"
  by (simp add: mesmos_valores_def)

lemma mesmos_valores_trans: "mesmos_valores a b \<Longrightarrow> mesmos_valores b c \<Longrightarrow> mesmos_valores a c"
  by (simp add: mesmos_valores_def)

lemma mesmos_valores_lista_trans:
  "list_all2 mesmos_valores xs ys \<Longrightarrow> list_all2 mesmos_valores ys zs
   \<Longrightarrow> list_all2 mesmos_valores xs zs"
  using list_all2_trans[of mesmos_valores mesmos_valores mesmos_valores xs ys zs]
    mesmos_valores_trans by blast

lemma mesmos_valores_outro_pedido:
  "list_all2 mesmos_valores rows
     (map (\<lambda>r. if it_ID r = k then r\<lparr>it_PedidoID := pid\<rparr> else r) rows)"
  by (induction rows) (simp_all add: mesmos_valores_def)

lemma save_Itens_passo:
  assumes "save_Itens float64 pid rows (item # itens) = (rows', itens')"
  shows "\<exists>rows1 its. save_Itens float64 pid rows1 itens = (rows', its)
           \<and> ((\<exists>k. rows1 = map (\<lambda>r. if it_ID r = k then r\<lparr>it_PedidoID := pid\<rparr> else r) rows)
                \<or> (\<exists>x. rows1 = rows @ [x]))"
proof -
  let ?i = "(BeforeSave float64 item)\<lparr>it_PedidoID := pid\<rparr>"
  show ?thesis
  proof (cases "it_ID ?i \<noteq> 0 \<and> it_ID ?i \<in> set (map it_ID rows)")
    case True
    then have "save_Itens float64 pid rows (item # itens) =
        (case save_Itens float64 pid
                (map (\<lambda>r. if it_ID r = it_ID ?i then r\<lparr>it_PedidoID := pid\<rparr> else r) rows) itens of
           (rows', itens') \<Rightarrow> (rows', ?i # itens'))"
      by (simp only: save_Itens.simps Let_def if_True simp_thms)
    with assms show ?thesis
      by (auto split: prod.splits)
  next
    case False
    then have "save_Itens float64 pid rows (item # itens) =
        (let i' = ?i\<lparr>it_ID := (if it_ID ?i = 0 then next_id (map it_ID rows) else it_ID ?i)\<rparr> in
         case save_Itens float64 pid (rows @ [i'\<lparr>it_Produto := zero_Produto\<rparr>]) itens of
           (rows', itens') \<Rightarrow> (rows', i' # itens'))"
      by (simp only: save_Itens.simps Let_def if_False simp_thms)
    with assms show ?thesis
      by (auto simp only: Let_def prod.inject split: prod.splits)
  qed
qed

lemma save_Itens_preserva:
  "save_Itens float64 pid rows itens = (rows', itens') \<Longrightarrow>
   \<exists>velhas novas. rows' = velhas @ novas \<and> list_all2 mesmos_valores rows velhas"
proof (induction itens arbitrary: rows rows' itens')
  case Nil
  then have "rows' = rows" by simp
  then show ?case
    by (intro exI[of _ rows] exI[of _ "[]"]) (simp add: list_all2_refl mesmos_valores_refl)
next
  case (Cons item itens)
  from save_Itens_passo[OF Cons.prems] obtain rows1 its
    where s: "save_Itens float64 pid rows1 itens = (rows', its)"
      and c: "(\<exists>k. rows1 = map (\<lambda>r. if it_ID r = k then r\<lparr>it_PedidoID := pid\<rparr> else r) rows)
                \<or> (\<exists>x. rows1 = rows @ [x])"
    by blast
  from Cons.IH[OF s] obtain velhas novas
    where v: "rows' = velhas @ novas" and l: "list_all2 mesmos_valores rows1 velhas"
    by blast
  from c show ?case
  proof
    assume "\<exists>k. rows1 = map (\<lambda>r. if it_ID r = k then r\<lparr>it_PedidoID := pid\<rparr> else r) rows"
    then have "list_all2 mesmos_valores rows rows1"
      using mesmos_valores_outro_pedido by blast
    from this l have "list_all2 mesmos_valores rows velhas"
      by (rule mesmos_valores_lista_trans)
    with v show ?thesis by blast
  next
    assume "\<exists>x. rows1 = rows @ [x]"
    with l obtain v1 v2 where "velhas = v1 @ v2" and "list_all2 mesmos_valores rows v1"
      by (auto simp: list_all2_append1)
    with v show ?thesis by (intro exI[of _ v1] exI[of _ "v2 @ novas"]) simp
  qed
qed

lemma linhas_preservadas_refl:
  "\<exists>velhas novas. pedido_produtos db = velhas @ novas
     \<and> list_all2 mesmos_valores (pedido_produtos db) velhas"
  by (intro exI[of _ "pedido_produtos db"] exI[of _ "[]"])
     (simp add: list_all2_refl mesmos_valores_refl)

lemma pedidoRepo_Update_linhas:
  assumes "pedidoRepo_Update float64 db pedido = (db2, r2)"
  shows "\<exists>velhas novas. pedido_produtos db2 = velhas @ novas
           \<and> list_all2 mesmos_valores (pedido_produtos db) velhas"
proof (cases "closed db")
  case True
  with assms have "db2 = db" by (simp add: pedidoRepo_Update_def)
  then show ?thesis using linhas_preservadas_refl by blast
next
  case False
  obtain rows itens
    where s: "save_Itens float64 (ped_ID pedido) (pedido_produtos db) (ped_Itens pedido) = (rows, itens)"
    using save_Itens_total by blast
  with False assms have "pedido_produtos db2 = rows"
    by (auto simp: pedidoRepo_Update_def)
  with save_Itens_preserva[OF s] show ?thesis by simp
qed

lemma pedido_UpdateStatus_linhas:
  assumes "pedido_UpdateStatus float64 db pid sreq = (db2, r2)"
  shows "\<exists>velhas novas. pedido_produtos db2 = velhas @ novas
           \<and> list_all2 mesmos_valores (pedido_produtos db) velhas"
proof (cases "validate_UpdatePedidoRequest sreq")
  case (Cons e es)
  with assms have "db2 = db" by (simp add: pedido_UpdateStatus_def)
  then show ?thesis using linhas_preservadas_refl by blast
next
  case Nil
  show ?thesis
  proof (cases "pedidoRepo_FindByID db pid")
    case (Inl err)
    with Nil assms have "db2 = db" by (simp add: pedido_UpdateStatus_def)
    then show ?thesis using linhas_preservadas_refl by blast
  next
    case (Inr pedido)
    obtain d u where u: "pedidoRepo_Update float64 db (pedido\<lparr>ped_Status := up_Status sreq\<rparr>) = (d, u)"
      by (cases "pedidoRepo_Update float64 db (pedido\<lparr>ped_Status := up_Status sreq\<rparr>)")
    with Nil Inr assms have "db2 = d"
      by (cases u) (simp_all add: pedido_UpdateStatus_def)
    with pedidoRepo_Update_linhas[OF u] show ?thesis by simp
  qed
qed

text \<open>
  Claim C8. An update of a product, whatever it does to the product's price, leaves
  the orders and the lines of the orders as they were, so each line keeps the unit
  price it was created with. The hook that runs when a line is persisted keeps the
  line's unit price and sets its subtotal to \<^verbatim>\<open>float64(quantity)\<close> times that
  unit price. A later persist of an order, which the service does only when it
  updates a status, keeps every stored line's quantity, unit price and subtotal:
  the table starts with the lines it had, with these values.
\<close>

theorem C8_preco_unitario_congelado:
  assumes "produto_Update db id' req = (db1, r)"
  shows "pedidos db1 = pedidos db \<and> pedido_produtos db1 = pedido_produtos db
    \<and> list_all (\<lambda>l. it_PrecoUnitario (BeforeSave float64 l) = it_PrecoUnitario l
                 \<and> it_Subtotal (BeforeSave float64 l)
                     = float64 (it_Quantidade l) * it_PrecoUnitario l) (pedido_produtos db1)
    \<and> (\<forall>pid sreq db2 r2. pedido_UpdateStatus float64 db1 pid sreq = (db2, r2) \<longrightarrow>
         (\<exists>velhas novas. pedido_produtos db2 = velhas @ novas
             \<and> list_all2 mesmos_valores (pedido_produtos db) velhas))"
proof -
  note f = produto_Update_pedidos[OF assms]
  have "list_all (\<lambda>l. it_PrecoUnitario (BeforeSave float64 l) = it_PrecoUnitario l
                 \<and> it_Subtotal (BeforeSave float64 l)
                     = float64 (it_Quantidade l) * it_PrecoUnitario l) (pedido_produtos db1)"
    by (simp add: list_all_iff BeforeSave_def)
  moreover have "\<exists>velhas novas. pedido_produtos db2 = velhas @ novas
             \<and> list_all2 mesmos_valores (pedido_produtos db) velhas"
    if "pedido_UpdateStatus float64 db1 pid sreq = (db2, r2)" for pid sreq db2 r2
    using pedido_UpdateStatus_linhas[OF that] by (simp add: f)
  ultimately show ?thesis using f by blast
qed

theorem C8_preco_unitario_congelado_witness:
  "\<exists>db1 r. produto_Update loja_com_pedido 1 novo_preco = (db1, r)
     \<and> map prd_Preco (produtos db1) = [3499.99, 99.99, 100]
     \<and> pedido_produtos db1 = [item1] \<and> it_PrecoUnitario item1 = 2999.99
     \<and> it_Subtotal (BeforeSave real_of_int item1) = 2 * 2999.99
     \<and> (\<exists>db2 r2. pedido_UpdateStatus real_of_int db1 1 \<lparr>up_Status = ''pago''\<rparr> = (db2, r2)
            \<and> it_PrecoUnitario (hd (pedido_produtos db2)) = 2999.99)"
proof -
  obtain db1 r where eq: "produto_Update loja_com_pedido 1 novo_preco = (db1, r)"
    by (cases "produto_Update loja_com_pedido 1 novo_preco")
  have "map prd_Preco (produtos (fst (produto_Update loja_com_pedido 1 novo_preco)))
      = [3499.99, 99.99, 100]"
    by (simp add: produto_Update_def validate_UpdateProdutoRequest_def novo_preco_def
        produtoRepo_FindByID_def First_def produto_vivo_def loja_com_pedido_def loja_def
        notebook_def mouse_def teclado_def Update_sku_def Update_campos_def Let_def
        produtoRepo_Update_def upsert_def)
  with eq have p: "map prd_Preco (produtos db1) = [3499.99, 99.99, 100]" by simp
  obtain db2 r2 where st: "pedido_UpdateStatus real_of_int db1 1 \<lparr>up_Status = ''pago''\<rparr> = (db2, r2)"
    by (cases "pedido_UpdateStatus real_of_int db1 1 \<lparr>up_Status = ''pago''\<rparr>")
  have i: "pedido_produtos loja_com_pedido = [item1]"
    by (simp add: loja_com_pedido_def)
  note c8 = C8_preco_unitario_congelado[OF eq, of real_of_int, unfolded i]
  from c8 have l: "pedido_produtos db1 = [item1]"
    by simp
  from c8 l have b: "it_Subtotal (BeforeSave real_of_int item1)
              = real_of_int (it_Quantidade item1) * it_PrecoUnitario item1"
    by simp
  from c8 st have "\<exists>velhas novas. pedido_produtos db2 = velhas @ novas
             \<and> list_all2 mesmos_valores [item1] velhas"
    by blast
  then obtain v novas where "pedido_produtos db2 = v # novas" and "mesmos_valores item1 v"
    by (auto simp: list_all2_Cons1)
  then have "it_PrecoUnitario (hd (pedido_produtos db2)) = 2999.99"
    by (simp add: mesmos_valores_def item1_def)
  with eq p l b st show ?thesis
    by (simp add: item1_def)
qed

text \<open>Every product the service creates is stored, and returned, as active.\<close>

lemma produto_Create_ativo:
  assumes "produto_Create db req = (db', Inr resp)"
  shows "rp_Ativo resp" and "\<exists>p. produtos db' = produtos db @ [p] \<and> prd_Ativo p"
  using assms
  by (auto simp: produto_Create_def produtoRepo_Create_def Let_def default_value_def
      produto_toResponse_def split: list.splits sum.splits option.splits if_splits)

text \<open>
  Claim C9, on the code. The webcam is requested with an explicit false for the
  active flag. The service maps the flag to the struct, but the column is tagged
  \<^verbatim>\<open>default:true\<close> and false is the zero value of the field: the product is
  stored, and returned, as active.
\<close>

theorem C9_ativo_falso_explicito:
  "cp_Ativo webcam = Some False \<and>
   map prd_Ativo (produtos (fst (produto_Create loja webcam))) = [True, True, False, True] \<and>
   map_sum (\<lambda>e. e) rp_Ativo (snd (produto_Create loja webcam)) = Inr True"
  by (simp add: produto_Create_def validate_CreateProdutoRequest_def webcam_def
      produtoRepo_FindBySKU_def First_def loja_def notebook_def mouse_def teclado_def
      produtoRepo_Create_def Let_def default_value_def next_id_def produto_toResponse_def)

end
